theory Spec2Isabelle
  imports Main
begin

unbundle bit_operations_syntax

section \<open>Python primitives used by the sources\<close>

text \<open>Python's \<open>xs[a:b]\<close> for indices that are not negative: empty when \<open>b \<le> a\<close>.\<close>

definition py_slice :: "nat \<Rightarrow> nat \<Rightarrow> 'a list \<Rightarrow> 'a list" where
  "py_slice a b xs = take (b - a) (drop a xs)"

text \<open>Python's \<open>xs.index(x)\<close>: the first position holding \<open>x\<close>; \<open>None\<close> is ValueError.\<close>

fun list_index :: "'a \<Rightarrow> 'a list \<Rightarrow> nat option" where
  "list_index x [] = None"
| "list_index x (y # ys) = (if y = x then Some 0 else map_option Suc (list_index x ys))"

text \<open>
  A Python 2 \<open>str\<close> is a sequence of bytes, as \<open>string\<close> is here. \<open>"%d" % n\<close> and \<open>str(n)\<close>
  of an integer are its decimal digits, with a minus sign when negative.
\<close>

fun dec_digits :: "nat \<Rightarrow> string" where
  "dec_digits n =
     (if n < 10 then [''0123456789'' ! n]
      else dec_digits (n div 10) @ [''0123456789'' ! (n mod 10)])"

declare dec_digits.simps [simp del]

definition py_str_int :: "int \<Rightarrow> string" where
  "py_str_int i = (if i < 0 then CHR ''-'' # dec_digits (nat (- i)) else dec_digits (nat i))"

text \<open>\<open>sep.join(parts)\<close>.\<close>

fun py_join :: "string \<Rightarrow> string list \<Rightarrow> string" where
  "py_join sep [] = []"
| "py_join sep [x] = x"
| "py_join sep (x # y # ys) = x @ sep @ py_join sep (y # ys)"

text \<open>\<open>c.upper()\<close> and \<open>c.lower()\<close> of one ASCII character, and \<open>s.lower()\<close>.\<close>

definition py_upper_char :: "char \<Rightarrow> char" where
  "py_upper_char c =
     (case map_of (zip ''abcdefghijklmnopqrstuvwxyz'' ''ABCDEFGHIJKLMNOPQRSTUVWXYZ'') c of
        Some u \<Rightarrow> u | None \<Rightarrow> c)"

definition py_lower_char :: "char \<Rightarrow> char" where
  "py_lower_char c =
     (case map_of (zip ''ABCDEFGHIJKLMNOPQRSTUVWXYZ'' ''abcdefghijklmnopqrstuvwxyz'') c of
        Some u \<Rightarrow> u | None \<Rightarrow> c)"

definition py_lower :: "string \<Rightarrow> string" where
  "py_lower s = map py_lower_char s"

text \<open>\<open>string.hexdigits\<close>.\<close>

definition hexdigits :: string where
  "hexdigits = ''0123456789abcdefABCDEF''"

text \<open>
  \<open>long(s, 16)\<close> of a string of hexadecimal digits only (what is left of the address after
  the filter): no sign, prefix or blank can occur in it.
\<close>

definition hex_digit_value :: "char \<Rightarrow> int" where
  "hex_digit_value c =
     (case list_index c ''0123456789abcdef'' of
        Some i \<Rightarrow> int i
      | None \<Rightarrow> (case list_index c ''ABCDEF'' of Some i \<Rightarrow> 10 + int i | None \<Rightarrow> 0))"

definition py_long16 :: "string \<Rightarrow> int" where
  "py_long16 s = foldl (\<lambda>v c. 16 * v + hex_digit_value c) 0 s"

text \<open>The Python exceptions that the modelled functions raise, with their message.\<close>

datatype py_error = ValueError string | TypeError string | KeyError string
  | AttributeError string | IndexError_exc string

text \<open>
  \<open>"%x" % n\<close> for a number that is not negative, and \<open>"%02x" % n\<close>, padded with a zero
  to two digits.
\<close>

fun hex_digits :: "nat \<Rightarrow> string" where
  "hex_digits n =
     (if n < 16 then [''0123456789abcdef'' ! n]
      else hex_digits (n div 16) @ [''0123456789abcdef'' ! (n mod 16)])"

declare hex_digits.simps [simp del]

definition py_hex02 :: "nat \<Rightarrow> string" where
  "py_hex02 n = (let s = hex_digits n in if length s < 2 then CHR ''0'' # s else s)"

text \<open>
  \<open>s.strip()\<close> removes ASCII white space at both ends. \<open>int(s)\<close> of Python 2 on a byte
  string: white space, an optional sign, white space again, one or more decimal digits,
  white space, and nothing else; \<open>None\<close> stands for ValueError.
\<close>

definition py_isspace :: "char \<Rightarrow> bool" where
  "py_isspace c \<longleftrightarrow> c \<in> set [CHR '' '', CHR 0x09, CHR 0x0A, CHR 0x0B, CHR 0x0C, CHR 0x0D]"

definition py_lstrip :: "string \<Rightarrow> string" where
  "py_lstrip s = dropWhile py_isspace s"

definition py_strip :: "string \<Rightarrow> string" where
  "py_strip s = rev (dropWhile py_isspace (rev (dropWhile py_isspace s)))"

definition dec_value :: "string \<Rightarrow> int" where
  "dec_value s =
     foldl (\<lambda>v c. 10 * v + (case list_index c ''0123456789'' of Some d \<Rightarrow> int d | None \<Rightarrow> 0)) 0 s"

definition py_int :: "string \<Rightarrow> int option" where
  "py_int s =
     (let t = py_strip s;
          (sign, u) = (case t of
                         c # r \<Rightarrow> if c = CHR ''-'' then (- 1, py_lstrip r)
                                  else if c = CHR ''+'' then (1, py_lstrip r)
                                  else (1, t)
                       | [] \<Rightarrow> (1, t))
      in if u \<noteq> [] \<and> (\<forall>c \<in> set u. c \<in> set ''0123456789'') then Some (sign * dec_value u)
         else None)"

section \<open>Transmission-ID table (xbgw/xbee/utils.py, class TxStatusCallbacks)\<close>

text \<open>
  The table is a Python list of \<open>max_id + 1\<close> slots, each \<open>None\<close> or a callback, a
  cursor \<open>_baseindex\<close> and \<open>max_id\<close>. Every method mutates the object in place; here each
  method takes the table and returns its result together with the table afterwards. An
  exception is the \<open>Inl\<close> of the result. The lock only serialises the methods and is not
  modelled. Sizes and slot numbers that index the list are natural numbers; a transmission
  id handed to \<open>remove_callback\<close> or \<open>get_callback\<close> is any Python integer.
\<close>

datatype table_error = CallbacksFull | IndexError

record 'cb TxStatusCallbacks =
  callbacks :: "'cb option list"
  baseindex :: nat
  max_id :: nat

definition init_callbacks :: "nat \<Rightarrow> 'cb TxStatusCallbacks" where
  "init_callbacks m = \<lparr>callbacks = replicate (m + 1) None, baseindex = 1, max_id = m\<rparr>"

text \<open>
  \<open>_next_index\<close>: the slots from the cursor to the end, then slots 1 up to the cursor, are
  searched for the first empty one; 0 when there is none (the ValueError branch). The
  remainder \<open>index %= len(cblist)\<close> is only reached with a non-empty \<open>cblist\<close>.
\<close>

definition next_index :: "'cb TxStatusCallbacks \<Rightarrow> nat" where
  "next_index t =
     (let start = baseindex t mod (max_id t + 1);
          cblist = drop start (callbacks t) @ py_slice 1 start (callbacks t)
      in case list_index None cblist of
           None \<Rightarrow> 0
         | Some p \<Rightarrow>
             (let index = p + start
              in if index > length cblist then index mod length cblist else index))"

definition add_callback ::
  "'cb TxStatusCallbacks \<Rightarrow> 'cb \<Rightarrow> (table_error + nat) \<times> 'cb TxStatusCallbacks" where
  "add_callback t listener =
     (let txid = next_index t
      in if txid = 0 then (Inl CallbacksFull, t)
         else if txid \<ge> length (callbacks t) then (Inl IndexError, t)
         else
           (let t1 = t\<lparr>callbacks := (callbacks t)[txid := Some listener]\<rparr>;
                t2 = t1\<lparr>baseindex := baseindex t1 + 1\<rparr>;
                t3 = (if baseindex t2 > max_id t2 then t2\<lparr>baseindex := 1\<rparr> else t2)
            in (Inr txid, t3)))"

definition remove_callback ::
  "'cb TxStatusCallbacks \<Rightarrow> int \<Rightarrow> (table_error + unit) \<times> 'cb TxStatusCallbacks" where
  "remove_callback t txid =
     (if txid \<le> 0 \<or> txid > int (max_id t) then (Inl IndexError, t)
      else if nat txid \<ge> length (callbacks t) then (Inl IndexError, t)
      else (Inr (), t\<lparr>callbacks := (callbacks t)[nat txid := None]\<rparr>))"

definition get_callback :: "'cb TxStatusCallbacks \<Rightarrow> int \<Rightarrow> table_error + 'cb option" where
  "get_callback t txid =
     (if txid \<le> 0 \<or> txid > int (max_id t) then Inl IndexError
      else if nat txid \<ge> length (callbacks t) then Inl IndexError
      else Inr (callbacks t ! nat txid))"

text \<open>
  The shape every table built by \<open>__init__\<close> and changed only through the methods has:
  \<open>max_id + 1\<close> slots, slot 0 never used, the cursor within \<open>1..max_id\<close> (it stays 1 in a
  table with \<open>max_id = 0\<close>).
\<close>

definition table_ok :: "'cb TxStatusCallbacks \<Rightarrow> bool" where
  "table_ok t \<longleftrightarrow>
     length (callbacks t) = max_id t + 1 \<and> callbacks t ! 0 = None \<and>
     (baseindex t = 1 \<or> (1 \<le> baseindex t \<and> baseindex t \<le> max_id t))"

definition table_full :: "'cb TxStatusCallbacks \<Rightarrow> bool" where
  "table_full t \<longleftrightarrow> (\<forall>i \<in> {1..max_id t}. callbacks t ! i \<noteq> None)"

text \<open>
  A script of calls on one table, as the tests of the repository write them: the results
  of the calls in order (an id for an allocation, nothing for a release) and the table
  afterwards. An exception ends only the call that raised it.
\<close>

datatype 'cb table_op = Add 'cb | Remove int

fun run_ops ::
  "'cb TxStatusCallbacks \<Rightarrow> 'cb table_op list \<Rightarrow>
   (table_error + nat option) list \<times> 'cb TxStatusCallbacks" where
  "run_ops t [] = ([], t)"
| "run_ops t (Add l # ops) =
     (let (r, t1) = add_callback t l; (rs, t2) = run_ops t1 ops
      in (map_sum id Some r # rs, t2))"
| "run_ops t (Remove i # ops) =
     (let (r, t1) = remove_callback t i; (rs, t2) = run_ops t1 ops
      in (map_sum id (\<lambda>_. None) r # rs, t2))"

text \<open>The table after \<open>m\<close> allocations on a fresh table of \<open>m\<close> ids, the listeners named 1 to \<open>m\<close>.\<close>

definition filled :: "nat \<Rightarrow> nat TxStatusCallbacks" where
  "filled m = snd (run_ops (init_callbacks m) (map Add [1..<m + 1]))"

section \<open>Hardware addresses (xbgw/xbee/utils.py, normalize_ieee_address)\<close>

text \<open>
  The argument is a string, an \<open>int\<close> or \<open>long\<close>, or a value of any other type. The
  result is the canonical text \<open>[XX:XX:XX:XX:XX:XX:XX:XX]!\<close> or the exception raised.
  Python's \<open>>>\<close> on an unbounded integer is \<open>drop_bit\<close> (it rounds down, also for a negative
  number) and \<open>&\<close> is \<open>AND\<close> on integers in two's complement.
\<close>

datatype py_arg = PyStr string | PyInt int | PyOther

definition mac_pair :: "int \<Rightarrow> nat \<Rightarrow> string" where
  "mac_pair v i =
     [py_upper_char (hexdigits ! nat (15 AND drop_bit (i * 8 + 4) v)),
      py_upper_char (hexdigits ! nat (15 AND drop_bit (i * 8) v))]"

definition mac_string :: "int \<Rightarrow> string" where
  "mac_string v = ''['' @ py_join '':'' (map (mac_pair v) (rev [0..<8])) @ '']!''"

definition normalize_ieee_address :: "py_arg \<Rightarrow> py_error + string" where
  "normalize_ieee_address address =
     (case address of
        PyStr a \<Rightarrow>
          (let hexonly = filter (\<lambda>c. c \<in> set hexdigits) a
           in if 0 < length hexonly \<and> length hexonly \<le> 16
              then Inr (mac_string (py_long16 hexonly))
              else
                (let count = length hexonly
                 in if count > 16
                    then Inl (ValueError (''Address is too long ('' @ py_str_int (int count)
                                          @ '' chars)''))
                    else Inl (ValueError (''Address is too short ('' @ py_str_int (int count)
                                          @ '' chars)''))))
      | PyInt a \<Rightarrow> Inr (mac_string a)
      | PyOther \<Rightarrow> Inl (TypeError ''Network address must be given as a string, int or long''))"

section \<open>I/O sample decoder (xbgw/xbee/io_sample.py, parse_is)\<close>

text \<open>
  \<open>struct.unpack\<close> with a big-endian format raises \<open>struct.error\<close> unless the string has
  exactly the length of the format; \<open>B\<close> is one unsigned byte, \<open>H\<close> two bytes, the high
  one first. The dictionary returned is kept as the list of its items in the order the
  keys were first stored; storing under a key already present replaces its value.
\<close>

datatype struct_error = StructError

definition unpack_BHB :: "string \<Rightarrow> struct_error + nat \<times> nat \<times> nat" where
  "unpack_BHB s =
     (case s of
        [a, b, c, d] \<Rightarrow> Inr (of_char a, 256 * of_char b + of_char c, of_char d)
      | _ \<Rightarrow> Inl StructError)"

definition unpack_BH :: "string \<Rightarrow> struct_error + nat \<times> nat" where
  "unpack_BH s =
     (case s of
        [a, b, c] \<Rightarrow> Inr (of_char a, 256 * of_char b + of_char c)
      | _ \<Rightarrow> Inl StructError)"

definition unpack_H :: "string \<Rightarrow> struct_error + nat" where
  "unpack_H s =
     (case s of
        [a, b] \<Rightarrow> Inr (256 * of_char a + of_char b)
      | _ \<Rightarrow> Inl StructError)"

datatype sample_value = Digital bool | Analog nat

type_synonym io_sample = "(string \<times> sample_value) list"

fun dict_set :: "'k \<Rightarrow> 'v \<Rightarrow> ('k \<times> 'v) list \<Rightarrow> ('k \<times> 'v) list" where
  "dict_set k v [] = [(k, v)]"
| "dict_set k v ((k', v') # d) = (if k' = k then (k, v) # d else (k', v') # dict_set k v d)"

function digital_loop :: "nat \<Rightarrow> nat \<Rightarrow> nat \<Rightarrow> io_sample \<Rightarrow> io_sample" where
  "digital_loop datamask datavals currentDI retdir =
     (if datamask = 0 then retdir
      else digital_loop (drop_bit 1 datamask) (drop_bit 1 datavals) (currentDI + 1)
             (if datamask AND 1 \<noteq> 0
              then dict_set (''DIO'' @ py_str_int (int currentDI))
                     (Digital (datavals AND 1 \<noteq> 0)) retdir
              else retdir))"
  by pat_completeness auto
termination
  by (relation "measure (\<lambda>(datamask, _, _, _). datamask)") (auto simp: drop_bit_eq_div)

declare digital_loop.simps [simp del]

function analog_loop :: "nat \<Rightarrow> nat \<Rightarrow> string \<Rightarrow> io_sample \<Rightarrow> struct_error + io_sample" where
  "analog_loop analogmask currentAI data retdir =
     (if analogmask = 0 then Inr retdir
      else if analogmask AND 1 \<noteq> 0
      then (case unpack_H (take 2 data) of
              Inl e \<Rightarrow> Inl e
            | Inr aval \<Rightarrow>
                analog_loop (drop_bit 1 analogmask) (currentAI + 1) (drop 2 data)
                  (dict_set (''AD'' @ py_str_int (int currentAI)) (Analog aval) retdir))
      else analog_loop (drop_bit 1 analogmask) (currentAI + 1) data retdir)"
  by pat_completeness auto
termination
  by (relation "measure (\<lambda>(analogmask, _, _, _). analogmask)") (auto simp: drop_bit_eq_div)

declare analog_loop.simps [simp del]

definition parse_is :: "string \<Rightarrow> struct_error + io_sample" where
  "parse_is data0 =
     (case (if length data0 mod 2 = 0
            then (case unpack_BHB (take 4 data0) of
                    Inl e \<Rightarrow> Inl e
                  | Inr (_, datamask, analogmask) \<Rightarrow> Inr (datamask, analogmask, drop 4 data0))
            else (case unpack_BH (take 3 data0) of
                    Inl e \<Rightarrow> Inl e
                  | Inr (_, mask_v) \<Rightarrow> Inr (mask_v mod 512, drop_bit 9 mask_v, drop 3 data0))) of
        Inl e \<Rightarrow> Inl e
      | Inr (datamask, analogmask, data1) \<Rightarrow>
          (case (if datamask \<noteq> 0
                 then (case unpack_H (take 2 data1) of
                         Inl e \<Rightarrow> Inl e
                       | Inr datavals \<Rightarrow>
                           Inr (digital_loop datamask datavals 0 [], drop 2 data1))
                 else Inr ([], data1)) of
             Inl e \<Rightarrow> Inl e
           | Inr (retdir, data2) \<Rightarrow> analog_loop analogmask 0 data2 retdir))"

text \<open>
  The sample of test_io_sample.py: \<open>struct.pack("!BHBHHHHH", 0x01, 0xfff0, 0x0f, 0xffff,
  0xffff, 0xffff, 0xffff, 0xffff)\<close>, 14 bytes.
\<close>

definition test_sample :: string where
  "test_sample =
     [CHR 0x01, CHR 0xFF, CHR 0xF0, CHR 0x0F,
      CHR 0xFF, CHR 0xFF, CHR 0xFF, CHR 0xFF, CHR 0xFF, CHR 0xFF, CHR 0xFF, CHR 0xFF,
      CHR 0xFF, CHR 0xFF]"

section \<open>Command router (xbgw/command/rci.py)\<close>

text \<open>
  An ElementTree element: tag, attributes, text (\<open>etext\<close>) and children. \<open>element.get(key)\<close> is
  \<open>None\<close> for a missing attribute.
\<close>

datatype element =
  Element (tag: string) (attrib: "(string \<times> string) list") (etext: "string option")
    (children: "element list")

definition elem_get :: "element \<Rightarrow> string \<Rightarrow> string option" where
  "elem_get e k = map_of (attrib e) k"

text \<open>
  \<open>ErrorResponse(errcode, errdb, hint)\<close>: a \<open>response\<close> element with one \<open>error\<close> child
  carrying the id, a \<open>desc\<close> child with the catalogue text, and a \<open>hint\<close> child when the
  hint is neither \<open>None\<close> nor empty. \<open>errdb[errcode]\<close> raises KeyError for an unknown code.
\<close>

definition ErrorResponse ::
  "string \<Rightarrow> (string \<times> string) list \<Rightarrow> string option \<Rightarrow> py_error + element" where
  "ErrorResponse errcode errdb hint =
     (case map_of errdb errcode of
        None \<Rightarrow> Inl (KeyError errcode)
      | Some desc \<Rightarrow>
          Inr (Element ''response'' [] None
                 [Element ''error'' [(''id'', errcode)] None
                    (Element ''desc'' [] (Some desc) [] #
                     (case hint of
                        None \<Rightarrow> []
                      | Some h \<Rightarrow> if h = [] then [] else [Element ''hint'' [] (Some h) []]))]))"

definition BLOCKING_LIMIT :: nat where
  "BLOCKING_LIMIT = 30"

definition rci_errors :: "(string \<times> string) list" where
  "rci_errors =
     [(''command.unknown'', ''Command not handled''),
      (''command.timeout'', ''Timeout or unexpected exit waiting for response'')]"

text \<open>
  What a handler puts on the reply queue: the sentinel \<open>ResponsePending\<close>, a
  \<open>DeferredResponse\<close> wrapping a value, or any other value. A value is an Element or an
  object of another type, of which only \<open>str(value)\<close> is used.
\<close>

datatype response_value = Elem element | Other string

datatype queue_item = ResponsePending | DeferredResponse response_value | Plain response_value

text \<open>
  Lines 234 to 240: a value that is not an Element is wrapped into a \<open>response\<close> element
  holding its \<open>str\<close>; the tag of the element is then set to \<open>response\<close>.
\<close>

definition as_response :: "response_value \<Rightarrow> element" where
  "as_response r =
     (case r of
        Elem e \<Rightarrow> Element ''response'' (attrib e) (etext e) (children e)
      | Other s \<Rightarrow> Element ''response'' [] (Some s) [])"

text \<open>
  The loop of \<open>process_command\<close>. The queue holds what the subscribers put while
  \<open>sendMessage\<close> ran. Puts made later by another thread are the list \<open>arrivals\<close>: each
  with the time a \<open>get\<close> that finds the queue empty has to wait for it. A \<open>get\<close> on a
  non-empty queue returns at once; on an empty queue (reached only with
  \<open>deferred > 0\<close>) it returns the next arrival if that comes within \<open>BLOCKING_LIMIT\<close>,
  and raises \<open>Queue.Empty\<close> otherwise, which ends the loop. The result is the counter
  \<open>deferred\<close>, the children appended to \<open>resp_xml\<close>, and the time spent waiting.
\<close>

function collect ::
  "int \<Rightarrow> queue_item list \<Rightarrow> (nat \<times> queue_item) list \<Rightarrow> element list \<Rightarrow> nat \<Rightarrow>
   int \<times> element list \<times> nat" where
  "collect deferred (ResponsePending # q) arrivals acc waited =
     collect (deferred + 1) q arrivals acc waited"
| "collect deferred (DeferredResponse r # q) arrivals acc waited =
     collect (deferred - 1) q arrivals (acc @ [as_response r]) waited"
| "collect deferred (Plain r # q) arrivals acc waited =
     collect deferred q arrivals (acc @ [as_response r]) waited"
| "collect deferred [] arrivals acc waited =
     (if deferred > 0
      then (case arrivals of
              [] \<Rightarrow> (deferred, acc, waited + BLOCKING_LIMIT)
            | (wait, x) # arrivals' \<Rightarrow>
                if wait < BLOCKING_LIMIT
                then collect deferred [x] arrivals' acc (waited + wait)
                else (deferred, acc, waited + BLOCKING_LIMIT))
      else (deferred, acc, waited))"
  by pat_completeness auto
termination
  by (relation "measure (\<lambda>(d, q, arrivals, acc, w). 2 * length arrivals + length q)") auto

text \<open>
  \<open>process_command\<close>, given the tag of the command element and what \<open>sendMessage\<close> left
  on the queue: the aggregate \<open>responses\<close> element and the time spent waiting.
\<close>

definition process_command ::
  "string \<Rightarrow> queue_item list \<Rightarrow> (nat \<times> queue_item) list \<Rightarrow> py_error + element \<times> nat" where
  "process_command tag_v published arrivals =
     (case (if published = []
            then map_sum id (\<lambda>e. [e]) (ErrorResponse ''command.unknown'' rci_errors (Some tag_v))
            else Inr []) of
        Inl exc \<Rightarrow> Inl exc
      | Inr first \<Rightarrow>
          (case collect 0 published arrivals first 0 of
             (deferred, replies, waited) \<Rightarrow>
               (case (if deferred > 0
                      then map_sum id (\<lambda>e. replicate (nat deferred) e)
                             (ErrorResponse ''command.timeout'' rci_errors None)
                      else Inr []) of
                  Inl exc \<Rightarrow> Inl exc
                | Inr timeouts \<Rightarrow>
                    Inr (Element ''responses'' [(''command'', tag_v)] None (replies @ timeouts),
                         waited))))"

text \<open>
  For stating what the loop did: the items it took off the queue, in order, written as a
  function of the same inputs as \<open>collect\<close>.
\<close>

function popped :: "int \<Rightarrow> queue_item list \<Rightarrow> (nat \<times> queue_item) list \<Rightarrow> queue_item list" where
  "popped deferred (ResponsePending # q) arrivals =
     ResponsePending # popped (deferred + 1) q arrivals"
| "popped deferred (DeferredResponse r # q) arrivals =
     DeferredResponse r # popped (deferred - 1) q arrivals"
| "popped deferred (Plain r # q) arrivals = Plain r # popped deferred q arrivals"
| "popped deferred [] arrivals =
     (if deferred > 0
      then (case arrivals of
              [] \<Rightarrow> []
            | (wait, x) # arrivals' \<Rightarrow>
                if wait < BLOCKING_LIMIT then popped deferred [x] arrivals' else [])
      else [])"
  by pat_completeness auto
termination
  by (relation "measure (\<lambda>(d, q, arrivals). 2 * length arrivals + length q)") auto

fun replies_of :: "queue_item list \<Rightarrow> element list" where
  "replies_of [] = []"
| "replies_of (ResponsePending # xs) = replies_of xs"
| "replies_of (DeferredResponse r # xs) = as_response r # replies_of xs"
| "replies_of (Plain r # xs) = as_response r # replies_of xs"

definition pending_count :: "queue_item list \<Rightarrow> int" where
  "pending_count xs = int (length (filter (\<lambda>x. x = ResponsePending) xs))"

definition deferred_count :: "queue_item list \<Rightarrow> int" where
  "deferred_count xs =
     int (length (filter (\<lambda>x. case x of DeferredResponse _ \<Rightarrow> True | _ \<Rightarrow> False) xs))"

definition timeout_reply :: element where
  "timeout_reply =
     Element ''response'' [] None
       [Element ''error'' [(''id'', ''command.timeout'')] None
          [Element ''desc'' [] (Some ''Timeout or unexpected exit waiting for response'') []]]"

definition unknown_reply :: "string \<Rightarrow> element" where
  "unknown_reply tag_v =
     Element ''response'' [] None
       [Element ''error'' [(''id'', ''command.unknown'')] None
          [Element ''desc'' [] (Some ''Command not handled'') [],
           Element ''hint'' [] (Some tag_v) []]]"

section \<open>Socket managers: what both have in common\<close>

text \<open>
  What the platform and the standard library supply is a parameter of the model:
  \<open>base64.b64decode\<close> (\<open>None\<close> is its TypeError), \<open>os.strerror\<close> (\<open>None\<close> is its
  ValueError) and the constants of the XBee socket module.
\<close>

record platform =
  b64decode :: "string option \<Rightarrow> string option"
  strerror :: "int \<Rightarrow> string option"
  XBS_OPT_DDO_APPLY :: int
  XBS_STAT_OK :: int
  XBS_STAT_ERROR :: int
  XBS_STAT_BADCMD :: int
  XBS_STAT_BADPARAM :: int
  XBS_STAT_TXFAIL :: int

text \<open>
  What a send attempt meets: the list \<open>poll(0)\<close> returns, the descriptor of the socket,
  and the exception \<open>sendto\<close> raises, if any. A \<open>socket.error\<close> is raised either with
  \<open>(errno, strerror)\<close>, and then its \<open>message\<close> is empty, or with one message string, and
  then its \<open>errno\<close> is \<open>None\<close>; any other exception is kept by its \<open>str\<close>.
\<close>

datatype sendto_exn = SocketError_errno int string | SocketError_msg string
  | OtherException string

datatype send_exn = SocketUnavailable string | Sendto sendto_exn

record send_env =
  poll_result :: "(int \<times> int) list"
  sockfd :: int
  sendto_raises :: "sendto_exn option"

definition POLLOUT :: int where
  "POLLOUT = 4"

datatype sock_addr = XBeeAddr string "int list" | DDOAddr string string int int

text \<open>
  \<open>attempt_send\<close> (the same code in both managers): \<open>Inr\<close> when \<open>sendto\<close> was called and
  returned.
\<close>

definition attempt_send :: "send_env \<Rightarrow> string \<Rightarrow> sock_addr \<Rightarrow> send_exn + unit" where
  "attempt_send env payload address =
     (if poll_result env = [] then Inl (SocketUnavailable ''No poll events returned'')
      else if \<exists>(fd, event) \<in> set (poll_result env). fd = sockfd env \<and> event = POLLOUT
      then (case sendto_raises env of None \<Rightarrow> Inr () | Some e \<Rightarrow> Inl (Sendto e))
      else Inl (SocketUnavailable ''Socket not available for write''))"

text \<open>
  The message of the reply after \<open>except (SocketUnavailable, socket.error) as e\<close> (the
  same code in both managers): \<open>e.message\<close>, or when that is empty
  \<open>os.strerror(e.errno)\<close>, or \<open>str(e)\<close> when \<open>strerror\<close> raises ValueError.
  \<open>os.strerror(None)\<close> raises TypeError, and a SocketUnavailable has no \<open>errno\<close>; neither
  is caught.
\<close>

definition socket_error_message :: "platform \<Rightarrow> send_exn \<Rightarrow> py_error + string" where
  "socket_error_message pf e =
     (case e of
        SocketUnavailable m \<Rightarrow> if m \<noteq> [] then Inr m else Inl (AttributeError ''errno'')
      | Sendto (SocketError_msg m) \<Rightarrow>
          if m \<noteq> [] then Inr m else Inl (TypeError ''an integer is required'')
      | Sendto (SocketError_errno n s) \<Rightarrow>
          (case strerror pf n of
             Some m \<Rightarrow> Inr m
           | None \<Rightarrow> Inr (''[Errno '' @ py_str_int n @ ''] '' @ s))
      | Sendto (OtherException s) \<Rightarrow> Inr s)"

text \<open>
  What one call of a command handler did: the table afterwards, the values put on the
  reply queue of the command, the frames handed to \<open>sendto\<close>, and the exception that left
  the handler, if any.
\<close>

record 'r outcome =
  table :: "'r TxStatusCallbacks"
  puts :: "queue_item list"
  sent :: "(string \<times> sock_addr) list"
  raised :: "py_error option"

text \<open>\<open>response.put(ErrorResponse(code, errors, hint)); return\<close>.\<close>

definition put_error ::
  "'r TxStatusCallbacks \<Rightarrow> string \<Rightarrow> (string \<times> string) list \<Rightarrow> string option \<Rightarrow> 'r outcome" where
  "put_error tbl code errdb hint =
     (case ErrorResponse code errdb hint of
        Inl exc \<Rightarrow> \<lparr>table = tbl, puts = [], sent = [], raised = Some exc\<rparr>
      | Inr el \<Rightarrow> \<lparr>table = tbl, puts = [Plain (Elem el)], sent = [], raised = None\<rparr>)"

definition raise_exc :: "'r TxStatusCallbacks \<Rightarrow> py_error \<Rightarrow> 'r outcome" where
  "raise_exc tbl exc = \<lparr>table = tbl, puts = [], sent = [], raised = Some exc\<rparr>"

text \<open>
  The checks a handler makes before it touches the table: the values it goes on with,
  the error reply it puts before returning, or an exception it does not catch.
\<close>

datatype 'a checked = Accepted 'a | Rejected string "string option" | Raises py_error

text \<open>
  The part of both handlers after a failed \<open>attempt_send\<close>: the callback is removed and
  one \<open>txfailed\<close> reply is put.
\<close>

definition send_failed ::
  "platform \<Rightarrow> (string \<times> string) list \<Rightarrow> 'r TxStatusCallbacks \<Rightarrow> nat \<Rightarrow> send_exn \<Rightarrow> 'r outcome" where
  "send_failed pf errdb tbl txid e =
     (case remove_callback tbl (int txid) of
        (Inl _, t2) \<Rightarrow>
          raise_exc t2
            (IndexError_exc (''Not a valid transmission ID: '' @ py_str_int (int txid)))
      | (Inr _, t2) \<Rightarrow>
          (case socket_error_message pf e of
             Inl exc \<Rightarrow> raise_exc t2 exc
           | Inr errmsg \<Rightarrow> put_error t2 ''txfailed'' errdb (Some errmsg)))"

section \<open>Serial manager (xbgw/xbee/manager.py)\<close>

definition DEFAULT_ENDPOINT :: int where "DEFAULT_ENDPOINT = 0xe8"
definition DIGI_PROFILE :: int where "DIGI_PROFILE = 0xc105"
definition SERIAL_CLUSTER :: int where "SERIAL_CLUSTER = 0x11"

definition manager_TX_STATUSES :: "(nat \<times> string) list" where
  "manager_TX_STATUSES =
     [(0x00, ''Success''),
      (0x01, ''MAC ACK Failure''),
      (0x02, ''CCA Failure''),
      (0x15, ''Invalid destination endpoint''),
      (0x21, ''Network ACK Failure''),
      (0x22, ''Not joined to network''),
      (0x23, ''Self addressed''),
      (0x24, ''Address not found''),
      (0x25, ''Route not found''),
      (0x26, ''Broadcast source failed to hear a neighbor relay the message''),
      (0x2b, ''Invalid binding table index''),
      (0x2c, ''Resource error; lack of free buffers, timers, etc''),
      (0x2d, ''Attempted broadcast with APS transmission''),
      (0x2e, ''Attempted unicast with APS transmission, but EE=0''),
      (0x32, ''Resource error; lack of free buffers, times, etc''),
      (0x74, ''Data payload too large'')]"

definition manager_errors :: "(string \<times> string) list" where
  "manager_errors =
     [(''address'', ''Invalid address''),
      (''encoding'', ''Unrecognized encoding''),
      (''base64'', ''Unable to decode as base64''),
      (''invalidattr'', ''Attribute value is incorrect''),
      (''missingattr'', ''Missing required command attribute''),
      (''toomanyattrs'', ''Too many attributes were given''),
      (''txfailed'', ''Transmit operation failed''),
      (''txfull'', ''Too many outstanding transmits''),
      (''txstatus'', ''TX Status delivery failure''),
      (''unexpected'', ''Unexpected/unclassified error'')]"

text \<open>
  \<open>utils.Address(address, endpoint, profile, cluster, optionsmask, txid).to_tuple()\<close>:
  the constructor normalises the address again; the two last numbers are left out of the
  tuple when both are zero.
\<close>

definition Address_to_tuple ::
  "string \<Rightarrow> int \<Rightarrow> int \<Rightarrow> int \<Rightarrow> int \<Rightarrow> int \<Rightarrow> py_error + sock_addr" where
  "Address_to_tuple address endpoint profile cluster optionsmask txid =
     (case normalize_ieee_address (PyStr address) of
        Inl exc \<Rightarrow> Inl exc
      | Inr a \<Rightarrow>
          Inr (XBeeAddr a ([endpoint, profile, cluster] @
                 (if optionsmask \<noteq> 0 \<or> txid \<noteq> 0 then [optionsmask, txid] else []))))"

text \<open>
  \<open>send_serial_listener\<close>, lines 258 to 302. The text of the element is held as the
  bytes of its UTF-8 form, so that \<open>msg.encode('utf-8')\<close> returns it as it is; on an
  element without text it raises AttributeError.
\<close>

definition send_serial_checks :: "platform \<Rightarrow> element \<Rightarrow> (string \<times> string) checked" where
  "send_serial_checks pf el =
     (let addr = elem_get el ''addr'';
          encoding = (case elem_get el ''encoding'' of None \<Rightarrow> ''base64'' | Some e \<Rightarrow> e);
          msg = etext el
      in case addr of
           None \<Rightarrow>
             Rejected ''missingattr''
               (Some ''No destination XBee address (attribute 'addr') given.'')
         | Some a0 \<Rightarrow>
             if a0 = [] then
               Rejected ''missingattr''
                 (Some ''No destination XBee address (attribute 'addr') given.'')
             else
               (case normalize_ieee_address
                       (PyStr (if a0 = ''broadcast'' then ''[00:00:00:00:00:00:FF:FF]!''
                               else a0)) of
                  Inl (ValueError m) \<Rightarrow> Rejected ''address'' (Some m)
                | Inl (TypeError m) \<Rightarrow>
                    Rejected ''unexpected'' (Some (''Problem parsing address: '' @ m))
                | Inl (KeyError m) \<Rightarrow>
                    Rejected ''unexpected'' (Some (''Problem parsing address: '' @ m))
                | Inl (AttributeError m) \<Rightarrow>
                    Rejected ''unexpected'' (Some (''Problem parsing address: '' @ m))
                | Inl (IndexError_exc m) \<Rightarrow>
                    Rejected ''unexpected'' (Some (''Problem parsing address: '' @ m))
                | Inr a \<Rightarrow>
                    if encoding = ''base64'' then
                      (case b64decode pf msg of
                         None \<Rightarrow> Rejected ''base64'' None
                       | Some m \<Rightarrow> Accepted (a, m))
                    else if encoding = ''utf-8'' then
                      (case msg of
                         None \<Rightarrow> Raises (AttributeError ''encode'')
                       | Some m \<Rightarrow> Accepted (a, m))
                    else Rejected ''encoding'' (Some encoding)))"

text \<open>
  \<open>send_serial_listener\<close>, lines 304 to 348. The callback stored in the table is the
  lambda that hands the reply queue \<open>response\<close> to \<open>status_callback\<close>; it is kept as that
  queue. Both \<open>except\<close> clauses around \<open>attempt_send\<close> remove the callback and put one
  \<open>txfailed\<close> reply; they differ only in how the message is found.
\<close>

definition send_serial_transmit ::
  "platform \<Rightarrow> send_env \<Rightarrow> 'r TxStatusCallbacks \<Rightarrow> 'r \<Rightarrow> string \<Rightarrow> string \<Rightarrow> 'r outcome" where
  "send_serial_transmit pf env tbl response addr msg =
     (case add_callback tbl response of
        (Inl CallbacksFull, t1) \<Rightarrow> put_error t1 ''txfull'' manager_errors None
      | (Inl IndexError, t1) \<Rightarrow> raise_exc t1 (IndexError_exc ''list assignment index out of range'')
      | (Inr txid, t1) \<Rightarrow>
          (case Address_to_tuple addr DEFAULT_ENDPOINT DIGI_PROFILE SERIAL_CLUSTER 0 (int txid) of
             Inl exc \<Rightarrow> raise_exc t1 exc
           | Inr dest \<Rightarrow>
               (case attempt_send env msg dest of
                  Inl e \<Rightarrow> send_failed pf manager_errors t1 txid e
                | Inr _ \<Rightarrow>
                    \<lparr>table = t1, puts = [ResponsePending], sent = [(msg, dest)],
                     raised = None\<rparr>)))"

definition send_serial_listener ::
  "platform \<Rightarrow> send_env \<Rightarrow> 'r TxStatusCallbacks \<Rightarrow> 'r \<Rightarrow> element \<Rightarrow> 'r outcome" where
  "send_serial_listener pf env tbl response el =
     (case send_serial_checks pf el of
        Rejected code hint \<Rightarrow> put_error tbl code manager_errors hint
      | Raises exc \<Rightarrow> raise_exc tbl exc
      | Accepted (addr, msg) \<Rightarrow> send_serial_transmit pf env tbl response addr msg)"

text \<open>
  \<open>status_callback\<close> of the serial manager: the value it puts on the reply queue. The
  delivery status is one unsigned byte of the status frame.
\<close>

definition manager_status_callback :: "nat \<Rightarrow> py_error + queue_item" where
  "manager_status_callback delivery_status =
     (if delivery_status \<noteq> 0 then
        (let errmsg = ''0x'' @ py_hex02 delivery_status @ '': '' @
               (case map_of manager_TX_STATUSES delivery_status of
                  Some s \<Rightarrow> s | None \<Rightarrow> ''Unknown'')
         in map_sum id (\<lambda>e. DeferredResponse (Elem e))
              (ErrorResponse ''txstatus'' manager_errors (Some errmsg)))
      else Inr (DeferredResponse (Elem (Element ''response'' [] (Some []) []))))"

section \<open>DDO manager (xbgw/xbee/ddo_manager.py)\<close>

definition ddo_TX_STATUSES :: "platform \<Rightarrow> (int \<times> string) list" where
  "ddo_TX_STATUSES pf =
     [(XBS_STAT_OK pf, ''Success''),
      (XBS_STAT_ERROR pf, ''Error''),
      (XBS_STAT_BADCMD pf, ''Invalid DDO command name''),
      (XBS_STAT_BADPARAM pf, ''Invalid DDO command value''),
      (XBS_STAT_TXFAIL pf, ''Transmit failure'')]"

definition ddo_errors :: "(string \<times> string) list" where
  "ddo_errors =
     [(''address'', ''Invalid address''),
      (''badoutput'', ''Invalid digital output value''),
      (''invalidattr'', ''Attribute value is incorrect''),
      (''missingattr'', ''Missing required command attribute''),
      (''toomanyattrs'', ''Too many attributes were given''),
      (''ddo_error'', ''DDO command error''),
      (''badcmd'', ''Invalid DDO command name''),
      (''badparam'', ''Invalid DDO command value''),
      (''txfailed'', ''Transmit operation failed''),
      (''txfull'', ''Too many outstanding transmits''),
      (''unexpected'', ''Unexpected/unclassified error'')]"

text \<open>
  The three tables of pin names after the module-level loop over \<open>xrange(13)\<close> has run:
  the dictionary literal of deprecated names extended by \<open>AD0\<close> to \<open>AD6\<close>, the accepted
  names \<open>DIOi\<close> (and \<open>Di\<close> below 10), and for each pin the accepted names in the order they
  were appended.
\<close>

definition BAD_NAME_MAP :: "(string \<times> int) list" where
  "BAD_NAME_MAP =
     [(''ASSOC'', 5), (''RTS'', 6), (''CTS'', 7),
      (''DTR'', 8), (''SLEEP_RQ'', 8), (''ON'', 9), (''SLEEP'', 9),
      (''PWM0'', 10), (''RSSI'', 10), (''P0'', 10),
      (''PWM'', 11), (''P1'', 11), (''P2'', 12)] @
     map (\<lambda>i. (''AD'' @ py_str_int i, i)) (filter (\<lambda>i. i < 7) (map int [0..<13]))"

definition PIN_MAP :: "(string \<times> int) list" where
  "PIN_MAP =
     concat (map (\<lambda>i. (''DIO'' @ py_str_int i, i) #
                       (if i < 10 then [(''D'' @ py_str_int i, i)] else []))
               (map int [0..<13]))"

definition INVERSE_PIN_MAP :: "(int \<times> string list) list" where
  "INVERSE_PIN_MAP =
     map (\<lambda>i. (i, (''DIO'' @ py_str_int i) #
                     (if i < 10 then [''D'' @ py_str_int i] else [])))
       (map int [0..<13])"

text \<open>
  \<open>distutils.util.strtobool\<close> of the standard library: 1 or 0 for the listed words in
  any letter case; \<open>None\<close> is its ValueError.
\<close>

definition strtobool :: "string \<Rightarrow> nat option" where
  "strtobool val =
     (let v = py_lower val
      in if v \<in> set [''y'', ''yes'', ''t'', ''true'', ''on'', ''1''] then Some 1
         else if v \<in> set [''n'', ''no'', ''f'', ''false'', ''off'', ''0''] then Some 0
         else None)"

definition parse_digital_value :: "string \<Rightarrow> nat" where
  "parse_digital_value v =
     (let value_l = py_lower v
      in if value_l = ''low'' then 4
         else if value_l = ''high'' then 5
         else (case strtobool v of Some b \<Rightarrow> b + 4 | None \<Rightarrow> 0))"

definition pin_index_to_setting :: "int \<Rightarrow> string" where
  "pin_index_to_setting pin =
     (if pin < 10 then ''D'' @ py_str_int pin else ''P'' @ py_str_int (pin - 10))"

text \<open>\<open>struct.pack('!I', n)\<close> for \<open>n\<close> below \<open>2 ^ 32\<close>: four bytes, the highest first.\<close>

definition pack_I :: "nat \<Rightarrow> string" where
  "pack_I n =
     [char_of (n div 2 ^ 24), char_of (n div 2 ^ 16), char_of (n div 2 ^ 8), char_of n]"

text \<open>
  \<open>digital_out_listener\<close>, lines 217 to 312: every check made before the table is
  touched. An accepted command goes on with the normalised address, the pin index and
  the parsed value (4 or 5). \<open>pin_checks\<close> is the part from \<open>if index == 9\<close> on, reached
  from the branch of the index and from the branch of the accepted names. The branch on
  \<open>name\<close> is only reached with a name that is not \<open>None\<close>; a \<open>None\<close> there would be in
  neither table and print as \<open>None\<close>.
\<close>

definition pin_checks :: "string \<Rightarrow> string \<Rightarrow> int \<Rightarrow> (string \<times> int \<times> nat) checked" where
  "pin_checks addr v index =
     (if index = 9 then
        Rejected ''invalidattr'' (Some ''DIO9 cannot be configured for digital'')
      else
        (let parsed_value = parse_digital_value v
         in if parsed_value = 0 then Rejected ''badoutput'' (Some v)
            else Accepted (addr, index, parsed_value)))"

definition digital_out_checks :: "element \<Rightarrow> (string \<times> int \<times> nat) checked" where
  "digital_out_checks el =
     (let addr = elem_get el ''addr'';
          index = elem_get el ''index'';
          name = elem_get el ''name'';
          v = py_strip (case etext el of None \<Rightarrow> [] | Some s \<Rightarrow> s)
      in if addr = None \<or> addr = Some [] then
           Rejected ''missingattr''
             (Some ''No destination XBee address (attribute 'addr') given.'')
         else
           (case normalize_ieee_address (PyStr (the addr)) of
              Inl (ValueError m) \<Rightarrow> Rejected ''address'' (Some m)
            | Inl (TypeError m) \<Rightarrow> Rejected ''address'' (Some m)
            | Inl (KeyError m) \<Rightarrow>
                Rejected ''unexpected'' (Some (''Problem parsing address: '' @ m))
            | Inl (AttributeError m) \<Rightarrow>
                Rejected ''unexpected'' (Some (''Problem parsing address: '' @ m))
            | Inl (IndexError_exc m) \<Rightarrow>
                Rejected ''unexpected'' (Some (''Problem parsing address: '' @ m))
            | Inr a \<Rightarrow>
                if (index = None \<or> index = Some []) \<and> (name = None \<or> name = Some []) then
                  Rejected ''missingattr''
                    (Some (''No digital output pin number (attribute 'index') or '' @
                           ''name alias (attribute 'name') given''))
                else if index \<noteq> None \<and> name \<noteq> None then
                  Rejected ''toomanyattrs''
                    (Some ''Must specify only an index or a name, not both.'')
                else if index \<noteq> None \<and> index \<noteq> Some [] then
                  (let i = (case py_int (the index) of Some n \<Rightarrow> n | None \<Rightarrow> - 1)
                   in if i < 0 \<or> i > 12 then
                        Rejected ''invalidattr''
                          (Some (''Pin number ('index') must be an integer between '' @
                                 ''0 and 12''))
                      else pin_checks a v i)
                else
                  (case name of
                     None \<Rightarrow>
                       Rejected ''invalidattr''
                         (Some (''Unrecognized digital output name: '' @
                                [CHR 0x27] @ ''None'' @ [CHR 0x27]))
                   | Some n \<Rightarrow>
                       (case map_of BAD_NAME_MAP n of
                          Some pin \<Rightarrow>
                            Rejected ''invalidattr''
                              (Some (case map_of INVERSE_PIN_MAP pin of
                                       Some names \<Rightarrow>
                                         ''Bad digital output name; use '' @
                                         py_join '' or '' names @ '' instead.''
                                     | None \<Rightarrow> n))
                        | None \<Rightarrow>
                            (case map_of PIN_MAP n of
                               Some i \<Rightarrow> pin_checks a v i
                             | None \<Rightarrow>
                                 Rejected ''invalidattr''
                                   (Some (''Unrecognized digital output name: '' @
                                          [CHR 0x27] @ n @ [CHR 0x27])))))))"

text \<open>
  \<open>digital_out_listener\<close>, lines 314 to 359: the callback is registered, the frame is
  built and handed to \<open>attempt_send\<close>; \<open>ResponsePending\<close> is put once that returned.
\<close>

definition digital_out_transmit ::
  "platform \<Rightarrow> send_env \<Rightarrow> 'r TxStatusCallbacks \<Rightarrow> 'r \<Rightarrow> string \<Rightarrow> int \<Rightarrow> nat \<Rightarrow> 'r outcome" where
  "digital_out_transmit pf env tbl response addr index parsed_value =
     (let setting = pin_index_to_setting index
      in case add_callback tbl response of
           (Inl CallbacksFull, t1) \<Rightarrow> put_error t1 ''txfull'' ddo_errors None
         | (Inl IndexError, t1) \<Rightarrow>
             raise_exc t1 (IndexError_exc ''list assignment index out of range'')
         | (Inr txid, t1) \<Rightarrow>
             (let dest_addr = DDOAddr addr setting (XBS_OPT_DDO_APPLY pf) (int txid);
                  dest_value = pack_I parsed_value
              in case attempt_send env dest_value dest_addr of
                   Inl e \<Rightarrow> send_failed pf ddo_errors t1 txid e
                 | Inr _ \<Rightarrow>
                     \<lparr>table = t1, puts = [ResponsePending],
                      sent = [(dest_value, dest_addr)], raised = None\<rparr>))"

definition digital_out_listener ::
  "platform \<Rightarrow> send_env \<Rightarrow> 'r TxStatusCallbacks \<Rightarrow> 'r \<Rightarrow> element \<Rightarrow> 'r outcome" where
  "digital_out_listener pf env tbl response el =
     (case digital_out_checks el of
        Rejected code hint \<Rightarrow> put_error tbl code ddo_errors hint
      | Raises exc \<Rightarrow> raise_exc tbl exc
      | Accepted (addr, index, parsed_value) \<Rightarrow>
          digital_out_transmit pf env tbl response addr index parsed_value)"

text \<open>
  \<open>status_callback\<close> of the DDO manager, from the fields it reads of the source address
  of the status frame (\<open>address\<close>, \<open>sent_cmd\<close>, \<open>status\<close>) and the data of the frame
  (\<open>None\<close> or a string): the value it puts on the reply queue.
\<close>

definition ddo_status_callback ::
  "platform \<Rightarrow> string option \<Rightarrow> string \<Rightarrow> string \<Rightarrow> int \<Rightarrow> py_error + queue_item" where
  "ddo_status_callback pf data address sent_cmd status =
     (let deferred = map_sum id (\<lambda>e. DeferredResponse (Elem e))
      in if map_of (ddo_TX_STATUSES pf) status = None then
           deferred (ErrorResponse ''unexpected'' ddo_errors
                       (Some (''Unexpected status: '' @ py_str_int status)))
         else if status = XBS_STAT_OK pf then
           Inr (DeferredResponse (Elem (Element ''response'' []
                  (Some (case data of None \<Rightarrow> [] | Some d \<Rightarrow> d)) [])))
         else if status = XBS_STAT_TXFAIL pf then
           deferred (ErrorResponse ''txfailed'' ddo_errors (Some address))
         else if status = XBS_STAT_BADCMD pf then
           deferred (ErrorResponse ''badcmd'' ddo_errors (Some sent_cmd))
         else if status = XBS_STAT_BADPARAM pf then
           deferred (ErrorResponse ''badparam'' ddo_errors None)
         else if status = XBS_STAT_ERROR pf then
           deferred (ErrorResponse ''ddo_error'' ddo_errors None)
         else Inr (DeferredResponse (Elem (Element ''response'' [] None []))))"

text \<open>The constants of the XBee socket module as the tests of the repository set them.\<close>

definition test_platform :: platform where
  "test_platform =
     \<lparr>b64decode = (\<lambda>_. None), strerror = (\<lambda>_. None), XBS_OPT_DDO_APPLY = 2,
      XBS_STAT_OK = 0, XBS_STAT_ERROR = 1, XBS_STAT_BADCMD = 2, XBS_STAT_BADPARAM = 3,
      XBS_STAT_TXFAIL = 4\<rparr>"

section \<open>Serial manager: filtering of I/O readings (xbgw/xbee/manager.py)\<close>

text \<open>
  The three settings of the manager, the dictionary \<open>_last_report\<close> and the messages
  handed to \<open>pubsub.pub.sendMessage\<close>: topic, the two parts of \<open>ident\<close>, and the value. A
  digital reading is a Python \<open>bool\<close>, which is the integer 1 or 0 for \<open>==\<close>, \<open>-\<close> and
  \<open>abs\<close>; values are kept as integers.
\<close>

record manager_settings =
  filter_analog_duplicates :: bool
  minimum_analog_change :: int
  filter_digital_duplicates :: bool

type_synonym last_report = "string \<rightharpoonup> int"

record message =
  topic :: string
  ident_addr :: string
  ident_key :: string
  msg_value :: int

definition py_bool :: "bool \<Rightarrow> int" where
  "py_bool b = (if b then 1 else 0)"

text \<open>\<open>"{} - {}".format(addr[0], key)\<close>.\<close>

definition filter_key :: "string \<Rightarrow> string \<Rightarrow> string" where
  "filter_key addr0 key = addr0 @ '' - '' @ key"

text \<open>
  \<open>_process_analog\<close> and \<open>_process_digital\<close>: the dictionary afterwards and the messages
  published by the call.
\<close>

definition process_analog ::
  "manager_settings \<Rightarrow> last_report \<Rightarrow> string \<Rightarrow> string \<Rightarrow> int \<Rightarrow> last_report \<times> message list" where
  "process_analog st rep addr0 key v =
     (let filtered = filter_analog_duplicates st;
          fk = filter_key addr0 key;
          difference = minimum_analog_change st
      in if filtered \<and> (case rep fk of None \<Rightarrow> False
                          | Some old_value \<Rightarrow> \<bar>v - old_value\<bar> < difference)
         then (rep, [])
         else (rep(fk \<mapsto> v),
               [\<lparr>topic = ''xbee.analog'', ident_addr = addr0, ident_key = key,
                 msg_value = v\<rparr>]))"

definition process_digital ::
  "manager_settings \<Rightarrow> last_report \<Rightarrow> string \<Rightarrow> string \<Rightarrow> bool \<Rightarrow> last_report \<times> message list" where
  "process_digital st rep addr0 key v =
     (let filtered = filter_digital_duplicates st;
          fk = filter_key addr0 key
      in if filtered \<and> rep fk = Some (py_bool v)
         then (rep, [])
         else (rep(fk \<mapsto> py_bool v),
               [\<lparr>topic = ''xbee.digitalIn'', ident_addr = addr0, ident_key = key,
                 msg_value = py_bool v\<rparr>]))"

text \<open>
  A sequence of readings handed to the manager one after the other, each to the method
  for its kind, on the same dictionary.
\<close>

datatype reading = AnalogReading string string int | DigitalReading string string bool

fun process_reading ::
  "manager_settings \<Rightarrow> last_report \<Rightarrow> reading \<Rightarrow> last_report \<times> message list" where
  "process_reading st rep (AnalogReading addr0 key v) = process_analog st rep addr0 key v"
| "process_reading st rep (DigitalReading addr0 key v) = process_digital st rep addr0 key v"

fun process_readings ::
  "manager_settings \<Rightarrow> last_report \<Rightarrow> reading list \<Rightarrow> last_report \<times> message list" where
  "process_readings st rep [] = (rep, [])"
| "process_readings st rep (r # rs) =
     (let (rep1, ms1) = process_reading st rep r;
          (rep2, ms2) = process_readings st rep1 rs
      in (rep2, ms1 @ ms2))"

text \<open>
  Not in the source: the value of the last message in a list of published messages that
  belongs to a given filter key, used to state what the dictionary holds.
\<close>

fun last_published :: "string \<Rightarrow> message list \<Rightarrow> int option" where
  "last_published fk [] = None"
| "last_published fk (m # ms) =
     (case last_published fk ms of
        Some v \<Rightarrow> Some v
      | None \<Rightarrow> if filter_key (ident_addr m) (ident_key m) = fk then Some (msg_value m) else None)"

section \<open>Properties of the transmission-ID table\<close>

lemma list_index_None: "list_index x xs = None \<longleftrightarrow> x \<notin> set xs"
  by (induction xs) auto

lemma list_index_unique:
  "p < length xs \<Longrightarrow> xs ! p = x \<Longrightarrow> (\<forall>j<p. xs ! j \<noteq> x) \<Longrightarrow> list_index x xs = Some p"
proof (induction xs arbitrary: p)
  case Nil
  then show ?case by simp
next
  case (Cons y ys)
  show ?case
  proof (cases p)
    case 0
    with Cons.prems show ?thesis by simp
  next
    case (Suc q)
    from Cons.prems(3) Suc have "y \<noteq> x" by auto
    moreover have "list_index x ys = Some q"
    proof (rule Cons.IH)
      show "q < length ys" using Cons.prems(1) Suc by simp
      show "ys ! q = x" using Cons.prems(2) Suc by simp
      show "\<forall>j<q. ys ! j \<noteq> x" using Cons.prems(3) Suc by auto
    qed
    ultimately show ?thesis using Suc by simp
  qed
qed

lemma cblist_length:
  "length cbs = m + 1 \<Longrightarrow> 1 \<le> b \<Longrightarrow> b \<le> m \<Longrightarrow> length (drop b cbs @ py_slice 1 b cbs) = m"
  by (simp add: py_slice_def)

lemma cblist_nth:
  assumes "length cbs = m + 1" "1 \<le> b" "b \<le> m" "j < m"
  shows "(drop b cbs @ py_slice 1 b cbs) ! j = cbs ! (if b + j \<le> m then b + j else b + j - m)"
proof (cases "b + j \<le> m")
  case True
  then have "j < length (drop b cbs)" using assms by simp
  then show ?thesis using True assms by (simp add: nth_append)
next
  case False
  then have ge: "\<not> j < length (drop b cbs)" using assms by simp
  have "(drop b cbs @ py_slice 1 b cbs) ! j = py_slice 1 b cbs ! (j - (m + 1 - b))"
    using ge assms by (simp add: nth_append)
  also have "\<dots> = cbs ! (1 + (j - (m + 1 - b)))"
    using False assms by (simp add: py_slice_def)
  also have "1 + (j - (m + 1 - b)) = b + j - m" using False assms by simp
  finally show ?thesis using False by simp
qed

lemma full_next_index:
  assumes ok: "table_ok t" and full: "table_full t"
  shows "next_index t = 0"
proof (cases "max_id t = 0")
  case True
  then have "callbacks t = [None]" "baseindex t = 1"
    using ok by (auto simp: table_ok_def length_Suc_conv)
  then show ?thesis using True by (simp add: next_index_def py_slice_def)
next
  case False
  let ?b = "baseindex t" and ?m = "max_id t"
  have b: "1 \<le> ?b" "?b \<le> ?m" using ok False by (auto simp: table_ok_def)
  have len: "length (callbacks t) = ?m + 1" using ok by (simp add: table_ok_def)
  have start: "?b mod (?m + 1) = ?b" using b by simp
  let ?cb = "drop ?b (callbacks t) @ py_slice 1 ?b (callbacks t)"
  have "None \<notin> set ?cb"
  proof
    assume "None \<in> set ?cb"
    then obtain j where j: "j < length ?cb" "?cb ! j = None"
      by (metis in_set_conv_nth)
    have jm: "j < ?m" using j(1) cblist_length[OF len b] by simp
    have "?cb ! j = callbacks t ! (if ?b + j \<le> ?m then ?b + j else ?b + j - ?m)"
      by (rule cblist_nth[OF len b jm])
    moreover have "1 \<le> (if ?b + j \<le> ?m then ?b + j else ?b + j - ?m)"
      and "(if ?b + j \<le> ?m then ?b + j else ?b + j - ?m) \<le> ?m"
      using b jm by auto
    ultimately show False using full j(2) unfolding table_full_def by (metis atLeastAtMost_iff)
  qed
  then have "list_index None ?cb = None" by (simp add: list_index_None)
  then show ?thesis unfolding next_index_def Let_def start by simp
qed

lemma one_free_next_index:
  assumes ok: "table_ok t" and k: "1 \<le> k" "k \<le> max_id t"
    and free: "callbacks t ! k = None"
    and others: "\<forall>i. 1 \<le> i \<and> i \<le> max_id t \<and> i \<noteq> k \<longrightarrow> callbacks t ! i \<noteq> None"
  shows "next_index t = k"
proof -
  let ?b = "baseindex t" and ?m = "max_id t"
  have b: "1 \<le> ?b" "?b \<le> ?m" using ok k by (auto simp: table_ok_def)
  have len: "length (callbacks t) = ?m + 1" using ok by (simp add: table_ok_def)
  have start: "?b mod (?m + 1) = ?b" using b by simp
  let ?cb = "drop ?b (callbacks t) @ py_slice 1 ?b (callbacks t)"
  have cblen: "length ?cb = ?m" by (rule cblist_length[OF len b])
  define p where "p = (if ?b \<le> k then k - ?b else ?m + k - ?b)"
  have pm: "p < ?m" using b k by (auto simp: p_def)
  have src: "(if ?b + p \<le> ?m then ?b + p else ?b + p - ?m) = k"
    using b k by (auto simp: p_def)
  have at_p: "?cb ! p = None"
    using cblist_nth[OF len b pm] src free by simp
  have before: "\<forall>j<p. ?cb ! j \<noteq> None"
  proof (intro allI impI)
    fix j assume jp: "j < p"
    then have jm: "j < ?m" using pm by simp
    let ?i = "if ?b + j \<le> ?m then ?b + j else ?b + j - ?m"
    have "?cb ! j = callbacks t ! ?i" by (rule cblist_nth[OF len b jm])
    moreover have "1 \<le> ?i" "?i \<le> ?m" "?i \<noteq> k"
      using b k jp jm by (auto simp: p_def split: if_splits)
    ultimately show "?cb ! j \<noteq> None" using others by metis
  qed
  have idx: "list_index None ?cb = Some p"
    using list_index_unique[of p ?cb None] pm cblen at_p before by simp
  have final: "(if p + ?b > ?m then (p + ?b) mod ?m else p + ?b) = k"
  proof (cases "?b \<le> k")
    case True
    then show ?thesis using b k by (simp add: p_def)
  next
    case False
    then have "p + ?b = ?m + k" "k < ?m" using b k by (auto simp: p_def)
    then show ?thesis using k by simp
  qed
  show ?thesis unfolding next_index_def Let_def start idx option.case cblen by (rule final)
qed


lemma remove_in_range:
  assumes "table_ok t" "1 \<le> k" "k \<le> max_id t"
  shows "remove_callback t (int k) = (Inr (), t\<lparr>callbacks := (callbacks t)[k := None]\<rparr>)"
  using assms by (simp add: remove_callback_def table_ok_def)

lemma add_after_release:
  assumes ok: "table_ok t" and full: "table_full t" and k: "1 \<le> k" "k \<le> max_id t"
  defines "t1 \<equiv> t\<lparr>callbacks := (callbacks t)[k := None]\<rparr>"
  shows "\<exists>t2. add_callback t1 l = (Inr k, t2) \<and> table_ok t2 \<and> table_full t2"
proof -
  have len: "length (callbacks t) = max_id t + 1" using ok by (simp add: table_ok_def)
  have ok1: "table_ok t1"
    using ok k by (auto simp: table_ok_def t1_def)
  have free: "callbacks t1 ! k = None" using len k by (simp add: t1_def)
  have others: "\<forall>i. 1 \<le> i \<and> i \<le> max_id t1 \<and> i \<noteq> k \<longrightarrow> callbacks t1 ! i \<noteq> None"
    using full by (auto simp: t1_def table_full_def)
  have ni: "next_index t1 = k"
    using one_free_next_index[OF ok1 _ _ free others] k by (simp add: t1_def)
  define t2 where "t2 = snd (add_callback t1 l)"
  have f1: "length (callbacks t1) = max_id t + 1" "max_id t1 = max_id t"
      "callbacks t1 = (callbacks t)[k := None]" "baseindex t1 = baseindex t"
    using len by (simp_all add: t1_def)
  have r: "add_callback t1 l = (Inr k, t2)"
    using k len by (simp add: t2_def add_callback_def ni Let_def f1)
  have cb2: "callbacks t2 = (callbacks t)[k := Some l]" "max_id t2 = max_id t"
    using k len by (simp_all add: t2_def add_callback_def ni Let_def f1)
  have b2: "baseindex t2 = 1 \<or> (1 \<le> baseindex t2 \<and> baseindex t2 \<le> max_id t)"
    using k len by (auto simp: t2_def add_callback_def ni Let_def f1)
  have "table_ok t2"
    using ok k b2 by (auto simp: table_ok_def cb2)
  moreover have "table_full t2"
    unfolding table_full_def cb2
  proof
    fix i assume i: "i \<in> {1..max_id t}"
    then have "callbacks t ! i \<noteq> None" using full by (simp add: table_full_def)
    then show "(callbacks t)[k := Some l] ! i \<noteq> None"
      using i len by (cases "i = k") simp_all
  qed
  ultimately show ?thesis using r by blast
qed

lemma filled_5:
  "filled 5 = \<lparr>callbacks = [None, Some 1, Some 2, Some 3, Some 4, Some 5],
               baseindex = 1, max_id = 5\<rparr>"
  unfolding filled_def by code_simp

lemma filled_5_ok: "table_ok (filled 5)"
  unfolding filled_5 by code_simp

lemma filled_5_full: "table_full (filled 5)"
  unfolding filled_5 by code_simp

text \<open>
  C1, as stated, fails: after filling five slots and freeing id 2 and then id 1, the next
  two allocations return 1 and then 2. The cursor is back at 1 after five allocations, and
  the search starts from the cursor, not from the slot freed first.
\<close>

theorem batch_release_counterexample:
  "fst (run_ops (filled 5) [Remove 2, Remove 1, Add 6, Add 7])
     = [Inr None, Inr None, Inr (Some 1), Inr (Some 2)] \<and>
   fst (run_ops (filled 5) [Remove 2, Remove 1, Add 6, Add 7])
     \<noteq> [Inr None, Inr None, Inr (Some 2), Inr (Some 1)]"
  unfolding filled_5 by code_simp

text \<open>
  C1 (amended): from a table whose \<open>max_id\<close> slots are all occupied, wherever the cursor
  stands, releasing slot \<open>k\<close> and then allocating returns \<open>k\<close>; in particular freeing
  id 2 and allocating returns 2, and freeing id 1 after that and allocating returns 1
  (each release followed by its allocation, as test_txscb_id_wraps does).
\<close>

theorem release_then_allocate:
  assumes "table_ok t" and "table_full t"
  shows "(1 \<le> k \<and> k \<le> max_id t \<longrightarrow>
            fst (run_ops t [Remove (int k), Add l]) = [Inr None, Inr (Some k)]) \<and>
         (2 \<le> max_id t \<longrightarrow>
            fst (run_ops t [Remove 2, Add l, Remove 1, Add l'])
              = [Inr None, Inr (Some 2), Inr None, Inr (Some 1)])"
proof (intro conjI impI)
  assume k: "1 \<le> k \<and> k \<le> max_id t"
  obtain t2 where "add_callback (t\<lparr>callbacks := (callbacks t)[k := None]\<rparr>) l = (Inr k, t2)"
    using add_after_release[OF assms, of k l] k by blast
  then show "fst (run_ops t [Remove (int k), Add l]) = [Inr None, Inr (Some k)]"
    using remove_in_range[OF assms(1), of k] k by simp
next
  assume m: "2 \<le> max_id t"
  obtain t2 where t2: "add_callback (t\<lparr>callbacks := (callbacks t)[2 := None]\<rparr>) l = (Inr 2, t2)"
      "table_ok t2" "table_full t2"
    using add_after_release[OF assms, of 2 l] m by auto
  have m2: "max_id t2 = max_id t"
    using t2(1) by (auto simp: add_callback_def Let_def split: if_splits)
  obtain t4 where t4: "add_callback (t2\<lparr>callbacks := (callbacks t2)[1 := None]\<rparr>) l' = (Inr 1, t4)"
    using add_after_release[OF t2(2,3), of 1 l'] m m2 by auto
  have r1: "remove_callback t 2 = (Inr (), t\<lparr>callbacks := (callbacks t)[2 := None]\<rparr>)"
    using remove_in_range[OF assms(1), of 2] m by simp
  have r2: "remove_callback t2 1 = (Inr (), t2\<lparr>callbacks := (callbacks t2)[1 := None]\<rparr>)"
    using remove_in_range[OF t2(2), of 1] m m2 by simp
  show "fst (run_ops t [Remove 2, Add l, Remove 1, Add l'])
              = [Inr None, Inr (Some 2), Inr None, Inr (Some 1)]"
    using r1 r2 t2(1) t4 by simp
qed

theorem release_then_allocate_witness:
  "table_ok (filled 5) \<and> table_full (filled 5) \<and>
   (1 \<le> (4::nat) \<and> 4 \<le> max_id (filled 5)) \<and>
   fst (run_ops (filled 5) [Remove (int 4), Add 9]) = [Inr None, Inr (Some 4)] \<and>
   2 \<le> max_id (filled 5) \<and>
   fst (run_ops (filled 5) [Remove 2, Add 9, Remove 1, Add 10])
     = [Inr None, Inr (Some 2), Inr None, Inr (Some 1)]"
proof -
  have m: "max_id (filled 5) = 5" by (simp add: filled_5)
  show ?thesis
    using release_then_allocate[OF filled_5_ok filled_5_full, of 4 9 10] filled_5_ok filled_5_full
    by (simp add: m)
qed

text \<open>
  C6: when every slot \<open>1..max_id\<close> holds a callback, the search over all the slots finds
  no empty one (\<open>_next_index\<close> is 0), \<open>add_callback\<close> raises CallbacksFull, and the table
  is as it was.
\<close>

theorem add_callback_full:
  assumes "table_ok t" and "table_full t"
  shows "next_index t = 0 \<and> add_callback t l = (Inl CallbacksFull, t)"
  using full_next_index[OF assms] by (simp add: add_callback_def)

theorem add_callback_full_witness:
  "table_ok (filled 5) \<and> table_full (filled 5) \<and> next_index (filled 5) = 0 \<and>
   add_callback (filled 5) 6 = (Inl CallbacksFull, filled 5)"
  using add_callback_full[OF filled_5_ok filled_5_full, of 6] filled_5_ok filled_5_full
  by simp

section \<open>Properties of address normalisation\<close>

lemma nibble_low64:
  assumes k: "k + 4 \<le> 64"
  shows "(15::int) AND drop_bit k (take_bit 64 v) = 15 AND drop_bit k v"
proof -
  have m: "(15::int) = mask 4" by (simp add: mask_eq_exp_minus_1)
  show ?thesis
    unfolding m
    by (rule bit_eqI)
       (use k in \<open>auto simp: bit_and_iff bit_mask_iff bit_drop_bit_eq bit_take_bit_iff\<close>)
qed

lemma mac_pair_low64: "i < 8 \<Longrightarrow> mac_pair (take_bit 64 v) i = mac_pair v i"
  by (simp add: mac_pair_def nibble_low64)

lemma mac_string_low64: "mac_string (v mod 2 ^ 64) = mac_string v"
proof -
  have "map (mac_pair (take_bit 64 v)) (rev [0..<8]) = map (mac_pair v) (rev [0..<8])"
    by (rule map_cong) (simp_all add: mac_pair_low64)
  then have "mac_string (take_bit 64 v) = mac_string v" unfolding mac_string_def by (rule arg_cong)
  then show ?thesis by (simp only: take_bit_eq_mod)
qed

text \<open>
  C3, as stated, fails: a negative integer is not rejected. \<open>normalize_ieee_address(-1)\<close>
  returns the address \<open>[FF:FF:FF:FF:FF:FF:FF:FF]!\<close>; the integer branch has no range
  check at all.
\<close>

theorem negative_address_counterexample:
  "normalize_ieee_address (PyInt (- 1)) = Inr ''[FF:FF:FF:FF:FF:FF:FF:FF]!''"
  by code_simp

text \<open>
  C3 (amended): a string is accepted exactly when 1 to 16 hexadecimal digits are left
  after every other character is removed (none, or more than 16, raise ValueError); an
  integer is always accepted, without any range check, and yields the address of its
  value modulo \<open>2^64\<close>, a number from 0 to \<open>2^64 - 1\<close>.
\<close>

theorem normalize_ieee_address_cases:
  "(let n = length (filter (\<lambda>c. c \<in> set hexdigits) s)
    in (1 \<le> n \<and> n \<le> 16 \<longrightarrow> (\<exists>a. normalize_ieee_address (PyStr s) = Inr a)) \<and>
       (n = 0 \<or> 16 < n \<longrightarrow> (\<exists>m. normalize_ieee_address (PyStr s) = Inl (ValueError m)))) \<and>
   (\<exists>a. normalize_ieee_address (PyInt i) = Inr a) \<and>
   normalize_ieee_address (PyInt i) = normalize_ieee_address (PyInt (i mod 2 ^ 64)) \<and>
   0 \<le> i mod 2 ^ 64 \<and> i mod 2 ^ 64 < 2 ^ 64"
proof -
  have "mac_string (i mod 2 ^ 64) = mac_string i" by (rule mac_string_low64)
  then show ?thesis by (auto simp: normalize_ieee_address_def Let_def)
qed

theorem normalize_ieee_address_cases_witness:
  "(\<exists>a. normalize_ieee_address (PyStr ''00:13:a2:00:40:52:12:34'') = Inr a) \<and>
   (\<exists>m. normalize_ieee_address (PyStr ''NONHX'') = Inl (ValueError m)) \<and>
   (\<exists>m. normalize_ieee_address (PyStr ''11223344556677889900'') = Inl (ValueError m)) \<and>
   normalize_ieee_address (PyInt (- 1)) = normalize_ieee_address (PyInt ((- 1) mod 2 ^ 64))"
proof -
  have a: "length (filter (\<lambda>c. c \<in> set hexdigits) ''00:13:a2:00:40:52:12:34'') = 16"
    by code_simp
  have b: "length (filter (\<lambda>c. c \<in> set hexdigits) ''NONHX'') = 0"
    by code_simp
  have c: "length (filter (\<lambda>c. c \<in> set hexdigits) ''11223344556677889900'') = 20"
    by code_simp
  have 1: "\<exists>a. normalize_ieee_address (PyStr ''00:13:a2:00:40:52:12:34'') = Inr a"
    using normalize_ieee_address_cases[of "''00:13:a2:00:40:52:12:34''" "- 1"]
    unfolding Let_def a by (elim conjE) (simp only: le_refl one_le_numeral simp_thms)
  have 2: "\<exists>m. normalize_ieee_address (PyStr ''NONHX'') = Inl (ValueError m)"
    using normalize_ieee_address_cases[of "''NONHX''" 0]
    unfolding Let_def b by (elim conjE) (simp only: simp_thms)
  have 3: "\<exists>m. normalize_ieee_address (PyStr ''11223344556677889900'') = Inl (ValueError m)"
    using normalize_ieee_address_cases[of "''11223344556677889900''" 0]
    unfolding Let_def c by (elim conjE) (simp only: simp_thms numeral_less_iff Num.num.simps semiring_norm)
  have 4: "normalize_ieee_address (PyInt (- 1)) = normalize_ieee_address (PyInt ((- 1) mod 2 ^ 64))"
    using normalize_ieee_address_cases[of "''NONHX''" "- 1"] by (elim conjE)
  show ?thesis by (intro conjI 1 2 3 4)
qed

section \<open>The I/O sample decoder on the sample of the tests\<close>

lemma dec_digits_numeral:
  "dec_digits (numeral k) =
     (if (numeral k :: nat) < 10 then [''0123456789'' ! numeral k]
      else dec_digits (numeral k div 10) @ [''0123456789'' ! (numeral k mod 10)])"
  by (rule dec_digits.simps)

lemma dec_digits_0: "dec_digits 0 = ''0''"
  by (simp add: dec_digits.simps)

lemma dec_digits_1: "dec_digits (Suc 0) = ''1''"
  by (simp add: dec_digits.simps)

lemmas py_str_int_eval = py_str_int_def dec_digits_numeral dec_digits_0 dec_digits_1

lemma digital_loop_0: "digital_loop 0 v c r = r"
  by (simp add: digital_loop.simps)

lemma digital_loop_step:
  "m \<noteq> 0 \<Longrightarrow>
   digital_loop m v c r =
     digital_loop (m div 2) (v div 2) (c + 1)
       (if odd m then dict_set (''DIO'' @ py_str_int (int c)) (Digital (odd v)) r else r)"
  by (subst digital_loop.simps) (simp add: drop_bit_eq_div and_one_eq mod_2_eq_odd)

lemma analog_loop_0: "analog_loop 0 c d r = Inr r"
  by (simp add: analog_loop.simps)

lemma analog_loop_step:
  "m \<noteq> 0 \<Longrightarrow>
   analog_loop m c d r =
     (if odd m
      then (case unpack_H (take 2 d) of
              Inl e \<Rightarrow> Inl e
            | Inr aval \<Rightarrow>
                analog_loop (m div 2) (c + 1) (drop 2 d)
                  (dict_set (''AD'' @ py_str_int (int c)) (Analog aval) r))
      else analog_loop (m div 2) (c + 1) d r)"
  by (subst analog_loop.simps)
     (simp add: drop_bit_eq_div and_one_eq mod_2_eq_odd split: sum.splits)

lemma digital_part:
  "digital_loop 65520 65535 0 [] =
     [(''DIO4'', Digital True), (''DIO5'', Digital True), (''DIO6'', Digital True),
      (''DIO7'', Digital True), (''DIO8'', Digital True), (''DIO9'', Digital True),
      (''DIO10'', Digital True), (''DIO11'', Digital True), (''DIO12'', Digital True),
      (''DIO13'', Digital True), (''DIO14'', Digital True), (''DIO15'', Digital True)]"
  by (simp add: digital_loop_0 digital_loop_step py_str_int_eval)

lemma analog_part:
  "analog_loop 15 0
     [CHR 0xFF, CHR 0xFF, CHR 0xFF, CHR 0xFF, CHR 0xFF, CHR 0xFF, CHR 0xFF, CHR 0xFF] r =
     Inr (dict_set ''AD3'' (Analog 65535) (dict_set ''AD2'' (Analog 65535)
            (dict_set ''AD1'' (Analog 65535) (dict_set ''AD0'' (Analog 65535) r))))"
  by (simp add: analog_loop_0 analog_loop_step py_str_int_eval unpack_H_def)

text \<open>
  C7: the 14-byte sample 01 FFF0 0F FFFF FFFF FFFF FFFF FFFF (even length, so reserved
  byte, 16-bit digital mask 0xFFF0, 8-bit analog mask 0x0F, then five 16-bit words)
  decodes to a dictionary whose keys are exactly DIO4..DIO15 and AD0..AD3: one boolean for
  each set bit of the digital mask, read from the first value word, then one 16-bit
  big-endian value for each set bit of the analog mask, from the low bit up.
\<close>

theorem parse_is_test_sample:
  "length test_sample = 14 \<and>
   parse_is test_sample =
     Inr [(''DIO4'', Digital True), (''DIO5'', Digital True), (''DIO6'', Digital True),
          (''DIO7'', Digital True), (''DIO8'', Digital True), (''DIO9'', Digital True),
          (''DIO10'', Digital True), (''DIO11'', Digital True), (''DIO12'', Digital True),
          (''DIO13'', Digital True), (''DIO14'', Digital True), (''DIO15'', Digital True),
          (''AD0'', Analog 65535), (''AD1'', Analog 65535), (''AD2'', Analog 65535),
          (''AD3'', Analog 65535)] \<and>
   map_sum id (\<lambda>d. set (map fst d)) (parse_is test_sample) =
     Inr {''DIO4'', ''DIO5'', ''DIO6'', ''DIO7'', ''DIO8'', ''DIO9'', ''DIO10'', ''DIO11'',
          ''DIO12'', ''DIO13'', ''DIO14'', ''DIO15'', ''AD0'', ''AD1'', ''AD2'', ''AD3''}"
  by (simp add: parse_is_def test_sample_def unpack_BHB_def unpack_H_def digital_part
        analog_part)

section \<open>Properties of the command router\<close>

lemma collect_spec:
  "\<exists>w'. collect d q arr acc w =
     (d + pending_count (popped d q arr) - deferred_count (popped d q arr),
      acc @ replies_of (popped d q arr), w') \<and>
     (0 < d + pending_count (popped d q arr) - deferred_count (popped d q arr)
        \<longrightarrow> w + BLOCKING_LIMIT \<le> w')"
proof (induction d q arr acc w rule: collect.induct)
  case (1 deferred q arrivals acc waited)
  then show ?case by (auto simp: pending_count_def deferred_count_def)
next
  case (2 deferred r q arrivals acc waited)
  then show ?case by (auto simp: pending_count_def deferred_count_def)
next
  case (3 deferred r q arrivals acc waited)
  then show ?case by (auto simp: pending_count_def deferred_count_def)
next
  case (4 deferred arrivals acc waited)
  show ?case
  proof (cases "deferred > 0")
    case False
    then show ?thesis by (simp add: pending_count_def deferred_count_def)
  next
    case True
    show ?thesis
    proof (cases arrivals)
      case Nil
      with True show ?thesis by (simp add: pending_count_def deferred_count_def)
    next
      case (Cons a arrivals')
      obtain wait x where a: "a = (wait, x)" by (cases a)
      show ?thesis
      proof (cases "wait < BLOCKING_LIMIT")
        case False
        with True Cons a show ?thesis by (simp add: pending_count_def deferred_count_def)
      next
        case lt: True
        from "4.IH"[OF True Cons a[symmetric] lt] 
        obtain w' where
          "collect deferred [x] arrivals' acc (waited + wait) =
             (deferred + pending_count (popped deferred [x] arrivals')
                - deferred_count (popped deferred [x] arrivals'),
              acc @ replies_of (popped deferred [x] arrivals'), w')"
          "0 < deferred + pending_count (popped deferred [x] arrivals')
                - deferred_count (popped deferred [x] arrivals')
             \<longrightarrow> waited + wait + BLOCKING_LIMIT \<le> w'"
          by blast
        with True Cons a lt show ?thesis by auto
      qed
    qed
  qed
qed

text \<open>
  C4: Pending and Deferred values are matched by count. One Pending followed by one
  Deferred(value), on the queue after publish or arriving within the bound, gives exactly
  one response child and no timeout. In general the reply holds one child for every
  value taken off the queue, in arrival order, followed by one command.timeout error for
  every Pending still unmatched (Pendings taken minus Deferreds taken); such errors
  appear only after a wait of \<open>BLOCKING_LIMIT\<close> = 30 has expired.
\<close>

theorem pending_deferred_matching:
  "process_command tag_v [ResponsePending, DeferredResponse v] arrivals
     = Inr (Element ''responses'' [(''command'', tag_v)] None [as_response v], 0) \<and>
   (w < BLOCKING_LIMIT \<longrightarrow>
      process_command tag_v [ResponsePending] ((w, DeferredResponse v) # arrivals)
        = Inr (Element ''responses'' [(''command'', tag_v)] None [as_response v], w)) \<and>
   (published \<noteq> [] \<longrightarrow>
      (\<exists>waited.
         process_command tag_v published arrivals
           = Inr (Element ''responses'' [(''command'', tag_v)] None
                    (replies_of (popped 0 published arrivals) @
                     replicate
                       (nat (pending_count (popped 0 published arrivals)
                             - deferred_count (popped 0 published arrivals)))
                       timeout_reply),
                  waited) \<and>
         (0 < pending_count (popped 0 published arrivals)
              - deferred_count (popped 0 published arrivals)
            \<longrightarrow> BLOCKING_LIMIT \<le> waited)))"
proof (intro conjI impI)
  show "process_command tag_v [ResponsePending, DeferredResponse v] arrivals
     = Inr (Element ''responses'' [(''command'', tag_v)] None [as_response v], 0)"
    by (simp add: process_command_def)
next
  assume "w < BLOCKING_LIMIT"
  then show "process_command tag_v [ResponsePending] ((w, DeferredResponse v) # arrivals)
        = Inr (Element ''responses'' [(''command'', tag_v)] None [as_response v], w)"
    by (simp add: process_command_def)
next
  assume ne: "published \<noteq> []"
  let ?xs = "popped 0 published arrivals"
  let ?n = "pending_count ?xs - deferred_count ?xs"
  obtain w' where c: "collect 0 published arrivals [] 0 = (?n, replies_of ?xs, w')"
    and t: "0 < ?n \<longrightarrow> BLOCKING_LIMIT \<le> w'"
    using collect_spec[of 0 published arrivals "[]" 0] by auto
  have e: "ErrorResponse ''command.timeout'' rci_errors None = Inr timeout_reply"
    by (simp add: ErrorResponse_def rci_errors_def timeout_reply_def)
  have "process_command tag_v published arrivals
           = Inr (Element ''responses'' [(''command'', tag_v)] None
                    (replies_of ?xs @ replicate (nat ?n) timeout_reply), w')"
    using ne by (simp add: process_command_def c e)
  with t show "\<exists>waited.
         process_command tag_v published arrivals
           = Inr (Element ''responses'' [(''command'', tag_v)] None
                    (replies_of ?xs @ replicate (nat ?n) timeout_reply), waited) \<and>
         (0 < ?n \<longrightarrow> BLOCKING_LIMIT \<le> waited)"
    by blast
qed

theorem pending_deferred_matching_witness:
  "process_command ''send_serial'' [ResponsePending]
     [(3, DeferredResponse (Other ''ok'')), (40, DeferredResponse (Other ''late''))]
     = Inr (Element ''responses'' [(''command'', ''send_serial'')] None
              [Element ''response'' [] (Some ''ok'') []], 3) \<and>
   (\<exists>waited.
      process_command ''send_serial'' [ResponsePending, ResponsePending, Plain (Other ''x'')]
        [(3, DeferredResponse (Other ''ok'')), (40, DeferredResponse (Other ''late''))]
        = Inr (Element ''responses'' [(''command'', ''send_serial'')] None
                 [Element ''response'' [] (Some ''x'') [],
                  Element ''response'' [] (Some ''ok'') [], timeout_reply], waited) \<and>
      BLOCKING_LIMIT \<le> waited)"
proof -
  have lt: "(3::nat) < BLOCKING_LIMIT" "\<not> (40::nat) < BLOCKING_LIMIT"
    by (simp_all add: BLOCKING_LIMIT_def)
  have p: "popped 0 [ResponsePending, ResponsePending, Plain (Other ''x'')]
             [(3, DeferredResponse (Other ''ok'')), (40, DeferredResponse (Other ''late''))]
           = [ResponsePending, ResponsePending, Plain (Other ''x''),
              DeferredResponse (Other ''ok'')]"
    by (simp add: lt)
  have ne: "[ResponsePending, ResponsePending, Plain (Other ''x'')] \<noteq> []" by simp
  show ?thesis
    using pending_deferred_matching[of "''send_serial''" "Other ''ok''"
        "[(40, DeferredResponse (Other ''late''))]" 3
        "[ResponsePending, ResponsePending, Plain (Other ''x'')]"]
      pending_deferred_matching[of "''send_serial''" "Other ''ok''"
        "[(3, DeferredResponse (Other ''ok'')), (40, DeferredResponse (Other ''late''))]" 3
        "[ResponsePending, ResponsePending, Plain (Other ''x'')]"]
      lt ne
    by (simp add: p pending_count_def deferred_count_def as_response_def)
qed

text \<open>
  C8: when publish leaves the reply queue empty, the aggregate reply has exactly one
  child, the command.unknown error ("Command not handled") with the tag of the command
  as hint, and the loop is not entered: no wait. The tag of a parsed XML element is
  never empty; with an empty hint \<open>ErrorResponse\<close> would leave the hint child out.
\<close>

theorem no_subscriber_unknown:
  "tag_v \<noteq> [] \<Longrightarrow>
   process_command tag_v [] arrivals
     = Inr (Element ''responses'' [(''command'', tag_v)] None [unknown_reply tag_v], 0)"
  by (simp add: process_command_def ErrorResponse_def rci_errors_def unknown_reply_def)

theorem no_subscriber_unknown_witness:
  "''reboot'' \<noteq> [] \<and>
   process_command ''reboot'' [] [(1, Plain (Other ''late''))]
     = Inr (Element ''responses'' [(''command'', ''reboot'')] None
              [Element ''response'' [] None
                 [Element ''error'' [(''id'', ''command.unknown'')] None
                    [Element ''desc'' [] (Some ''Command not handled'') [],
                     Element ''hint'' [] (Some ''reboot'') []]]], 0)"
  using no_subscriber_unknown[of "''reboot''" "[(1, Plain (Other ''late''))]"]
  by (simp add: unknown_reply_def)

section \<open>Status callbacks of the two managers\<close>

lemma error_reply_with_hint:
  "map_of errdb code = Some desc \<Longrightarrow> h \<noteq> [] \<Longrightarrow>
   ErrorResponse code errdb (Some h) =
     Inr (Element ''response'' [] None
            [Element ''error'' [(''id'', code)] None
               [Element ''desc'' [] (Some desc) [], Element ''hint'' [] (Some h) []]])"
  by (simp add: ErrorResponse_def)

lemma error_reply_without_hint:
  "map_of errdb code = Some desc \<Longrightarrow>
   ErrorResponse code errdb None =
     Inr (Element ''response'' [] None
            [Element ''error'' [(''id'', code)] None [Element ''desc'' [] (Some desc) []]])"
  by (simp add: ErrorResponse_def)

text \<open>
  C2, as stated, fails for the serial manager: its \<open>status_callback\<close> has one error code
  for every delivery status that is not 0. The unrecognised status 3 gives a deferred
  \<open>txstatus\<close> error with the hint \<open>0x03: Unknown\<close>, not an \<open>unexpected\<close> error;
  test_manager_serial_output.py expects that text.
\<close>

theorem serial_unknown_status_counterexample:
  "map_of manager_TX_STATUSES 3 = None \<and>
   manager_status_callback 3 =
     Inr (DeferredResponse (Elem (Element ''response'' [] None
            [Element ''error'' [(''id'', ''txstatus'')] None
               [Element ''desc'' [] (Some ''TX Status delivery failure'') [],
                Element ''hint'' [] (Some ''0x03: Unknown'') []]])))"
  by code_simp

text \<open>
  C2 (amended): a status outside the recognised set always completes with one deferred
  error reply. In the DDO manager it is the \<open>unexpected\<close> error, its hint
  \<open>Unexpected status:\<close> followed by the status in decimal. In the serial manager it is
  the \<open>txstatus\<close> error that every failed delivery gets, its hint the status as two
  hexadecimal digits followed by \<open>Unknown\<close>.
\<close>

theorem unrecognized_status_deferred_error:
  "(map_of (ddo_TX_STATUSES pf) status = None \<longrightarrow>
      ddo_status_callback pf data address sent_cmd status =
        Inr (DeferredResponse (Elem (Element ''response'' [] None
               [Element ''error'' [(''id'', ''unexpected'')] None
                  [Element ''desc'' [] (Some ''Unexpected/unclassified error'') [],
                   Element ''hint'' []
                     (Some (''Unexpected status: '' @ py_str_int status)) []]])))) \<and>
   (map_of manager_TX_STATUSES delivery_status = None \<longrightarrow>
      manager_status_callback delivery_status =
        Inr (DeferredResponse (Elem (Element ''response'' [] None
               [Element ''error'' [(''id'', ''txstatus'')] None
                  [Element ''desc'' [] (Some ''TX Status delivery failure'') [],
                   Element ''hint'' []
                     (Some (''0x'' @ py_hex02 delivery_status @ '': Unknown'')) []]]))))"
proof (intro conjI impI)
  assume "map_of (ddo_TX_STATUSES pf) status = None"
  moreover have "map_of ddo_errors ''unexpected'' = Some ''Unexpected/unclassified error''"
    by (simp add: ddo_errors_def)
  ultimately show "ddo_status_callback pf data address sent_cmd status =
        Inr (DeferredResponse (Elem (Element ''response'' [] None
               [Element ''error'' [(''id'', ''unexpected'')] None
                  [Element ''desc'' [] (Some ''Unexpected/unclassified error'') [],
                   Element ''hint'' []
                     (Some (''Unexpected status: '' @ py_str_int status)) []]])))"
    by (simp add: ddo_status_callback_def error_reply_with_hint)
next
  assume unknown: "map_of manager_TX_STATUSES delivery_status = None"
  have "map_of manager_TX_STATUSES 0 \<noteq> None" by (simp add: manager_TX_STATUSES_def)
  then have nz: "delivery_status \<noteq> 0" using unknown by metis
  have "map_of manager_errors ''txstatus'' = Some ''TX Status delivery failure''"
    by (simp add: manager_errors_def)
  then show "manager_status_callback delivery_status =
        Inr (DeferredResponse (Elem (Element ''response'' [] None
               [Element ''error'' [(''id'', ''txstatus'')] None
                  [Element ''desc'' [] (Some ''TX Status delivery failure'') [],
                   Element ''hint'' []
                     (Some (''0x'' @ py_hex02 delivery_status @ '': Unknown'')) []]])))"
    using nz unknown by (simp add: manager_status_callback_def error_reply_with_hint)
qed

theorem unrecognized_status_deferred_error_witness:
  "map_of (ddo_TX_STATUSES test_platform) 80 = None \<and>
   ddo_status_callback test_platform None ''[00:13:A2:00:40:52:12:34]!'' ''D1'' 80 =
     Inr (DeferredResponse (Elem (Element ''response'' [] None
            [Element ''error'' [(''id'', ''unexpected'')] None
               [Element ''desc'' [] (Some ''Unexpected/unclassified error'') [],
                Element ''hint'' [] (Some ''Unexpected status: 80'') []]]))) \<and>
   map_of manager_TX_STATUSES 0x99 = None \<and>
   manager_status_callback 0x99 =
     Inr (DeferredResponse (Elem (Element ''response'' [] None
            [Element ''error'' [(''id'', ''txstatus'')] None
               [Element ''desc'' [] (Some ''TX Status delivery failure'') [],
                Element ''hint'' [] (Some ''0x99: Unknown'') []]])))"
proof -
  have a: "map_of (ddo_TX_STATUSES test_platform) 80 = None"
    by (simp add: ddo_TX_STATUSES_def test_platform_def)
  have b: "map_of manager_TX_STATUSES 0x99 = None"
    by (simp add: manager_TX_STATUSES_def)
  have c: "py_str_int 80 = ''80''" by code_simp
  have d: "py_hex02 0x99 = ''99''" by code_simp
  show ?thesis
    using unrecognized_status_deferred_error
      [of test_platform 80 None "''[00:13:A2:00:40:52:12:34]!''" "''D1''" "0x99"] a b
    by (simp add: c d)
qed

section \<open>Properties of the filter on I/O readings\<close>

lemma last_published_append:
  "last_published fk (ms1 @ ms2) =
     (case last_published fk ms2 of Some v \<Rightarrow> Some v | None \<Rightarrow> last_published fk ms1)"
  by (induction ms1) (auto split: option.splits)

lemma process_reading_entry:
  "fst (process_reading st rep r) fk =
     (case last_published fk (snd (process_reading st rep r)) of
        Some v \<Rightarrow> Some v | None \<Rightarrow> rep fk)"
  by (cases r) (auto simp: process_analog_def process_digital_def Let_def)

lemma process_readings_entry:
  "fst (process_readings st rep rs) fk =
     (case last_published fk (snd (process_readings st rep rs)) of
        Some v \<Rightarrow> Some v | None \<Rightarrow> rep fk)"
proof (induction rs arbitrary: rep)
  case Nil
  show ?case by simp
next
  case (Cons r rs)
  obtain rep1 ms1 where r: "process_reading st rep r = (rep1, ms1)"
    by (cases "process_reading st rep r")
  obtain rep2 ms2 where rs: "process_readings st rep1 rs = (rep2, ms2)"
    by (cases "process_readings st rep1 rs")
  have one: "rep1 fk = (case last_published fk ms1 of Some v \<Rightarrow> Some v | None \<Rightarrow> rep fk)"
    using process_reading_entry[of st rep r fk] r by simp
  have more: "rep2 fk = (case last_published fk ms2 of Some v \<Rightarrow> Some v | None \<Rightarrow> rep1 fk)"
    using Cons.IH[of rep1] rs by simp
  show ?case
    using one more by (simp add: r rs last_published_append split: option.splits)
qed

lemma suppressed_run:
  assumes "filter_analog_duplicates st" and "rep (filter_key addr0 key) = Some base"
    and "\<forall>v \<in> set vs. \<bar>v - base\<bar> < minimum_analog_change st"
  shows "process_readings st rep (map (AnalogReading addr0 key) vs) = (rep, [])"
  using assms by (induction vs) (simp_all add: process_analog_def)

lemma process_readings_append:
  "process_readings st rep (rs1 @ rs2) =
     (let (rep1, ms1) = process_readings st rep rs1;
          (rep2, ms2) = process_readings st rep1 rs2
      in (rep2, ms1 @ ms2))"
  by (induction rs1 arbitrary: rep) (simp_all split: prod.splits)

text \<open>
  C10: whatever readings arrive, the entry of \<open>_last_report\<close> for a channel is the value
  of the last message published for it (or what it was before, when none was). A
  reading within the minimum change of the entry publishes nothing and leaves the
  dictionary as it is. So a run of readings that each stay within the minimum change of
  the published baseline is dropped whole, however far the run drifts from its own
  earlier readings, and the first reading at least the minimum change away from the
  baseline is published and becomes the entry.
\<close>

theorem last_report_holds_last_published:
  "fst (process_readings st rep rs) fk =
     (case last_published fk (snd (process_readings st rep rs)) of
        Some v \<Rightarrow> Some v | None \<Rightarrow> rep fk) \<and>
   (filter_analog_duplicates st \<and> rep (filter_key addr0 key) = Some base \<and>
    \<bar>v - base\<bar> < minimum_analog_change st \<longrightarrow>
      process_analog st rep addr0 key v = (rep, [])) \<and>
   (filter_analog_duplicates st \<and> rep (filter_key addr0 key) = Some base \<and>
    (\<forall>u \<in> set vs. \<bar>u - base\<bar> < minimum_analog_change st) \<and>
    minimum_analog_change st \<le> \<bar>w - base\<bar> \<longrightarrow>
      process_readings st rep (map (AnalogReading addr0 key) (vs @ [w])) =
        (rep(filter_key addr0 key \<mapsto> w),
         [\<lparr>topic = ''xbee.analog'', ident_addr = addr0, ident_key = key, msg_value = w\<rparr>]))"
proof (intro conjI impI)
  show "fst (process_readings st rep rs) fk =
     (case last_published fk (snd (process_readings st rep rs)) of
        Some v \<Rightarrow> Some v | None \<Rightarrow> rep fk)"
    by (rule process_readings_entry)
next
  assume "filter_analog_duplicates st \<and> rep (filter_key addr0 key) = Some base \<and>
    \<bar>v - base\<bar> < minimum_analog_change st"
  then show "process_analog st rep addr0 key v = (rep, [])"
    by (simp add: process_analog_def)
next
  assume a: "filter_analog_duplicates st \<and> rep (filter_key addr0 key) = Some base \<and>
    (\<forall>u \<in> set vs. \<bar>u - base\<bar> < minimum_analog_change st) \<and>
    minimum_analog_change st \<le> \<bar>w - base\<bar>"
  then have run: "process_readings st rep (map (AnalogReading addr0 key) vs) = (rep, [])"
    using suppressed_run[of st rep addr0 key base vs] by blast
  have final: "process_analog st rep addr0 key w =
        (rep(filter_key addr0 key \<mapsto> w),
         [\<lparr>topic = ''xbee.analog'', ident_addr = addr0, ident_key = key, msg_value = w\<rparr>])"
    using a by (simp add: process_analog_def)
  show "process_readings st rep (map (AnalogReading addr0 key) (vs @ [w])) =
        (rep(filter_key addr0 key \<mapsto> w),
         [\<lparr>topic = ''xbee.analog'', ident_addr = addr0, ident_key = key, msg_value = w\<rparr>])"
    by (simp add: process_readings_append run final)
qed

theorem last_report_holds_last_published_witness:
  "filter_analog_duplicates \<lparr>filter_analog_duplicates = True, minimum_analog_change = 5,
      filter_digital_duplicates = True\<rparr> \<and>
   [''A - AD0'' \<mapsto> 100] (filter_key ''A'' ''AD0'') = Some 100 \<and>
   \<bar>104 - 100\<bar> < minimum_analog_change \<lparr>filter_analog_duplicates = True,
      minimum_analog_change = 5, filter_digital_duplicates = True\<rparr> \<and>
   process_analog \<lparr>filter_analog_duplicates = True, minimum_analog_change = 5,
      filter_digital_duplicates = True\<rparr> [''A - AD0'' \<mapsto> 100] ''A'' ''AD0'' 104
     = ([''A - AD0'' \<mapsto> 100], []) \<and>
   \<bar>101 - 100\<bar> < (5::int) \<and> \<bar>102 - 100\<bar> < (5::int) \<and>
   \<bar>103 - 100\<bar> < (5::int) \<and> \<bar>104 - 100\<bar> < (5::int) \<and>
   process_readings \<lparr>filter_analog_duplicates = True, minimum_analog_change = 5,
      filter_digital_duplicates = True\<rparr> [''A - AD0'' \<mapsto> 100]
      (map (AnalogReading ''A'' ''AD0'') ([101, 102, 103, 104] @ [105]))
     = ([''A - AD0'' \<mapsto> 100](filter_key ''A'' ''AD0'' \<mapsto> 105),
        [\<lparr>topic = ''xbee.analog'', ident_addr = ''A'', ident_key = ''AD0'',
          msg_value = 105\<rparr>])"
proof -
  let ?st = "\<lparr>filter_analog_duplicates = True, minimum_analog_change = 5,
      filter_digital_duplicates = True\<rparr>"
  have k: "filter_key ''A'' ''AD0'' = ''A - AD0''" by (simp add: filter_key_def)
  show ?thesis
    using last_report_holds_last_published
      [of ?st "[''A - AD0'' \<mapsto> 100]" "[]" "''A - AD0''" "''A''" "''AD0''" 100 104
          "[101, 102, 103, 104]" 105]
    by (simp add: k)
qed

end
